theory Spec2Isabelle
  imports Complex_Main "HOL-Library.Multiset" "HOL-Library.Char_ord" "HOL-Library.List_Lexorder"
begin

section \<open>Strings, numbers and time as the Go code uses them\<close>

text \<open>
  A Go \<^verbatim>\<open>string\<close> is a sequence of bytes; it is modelled as \<^typ>\<open>string\<close>, a list of
  8-bit characters. Comparison with \<^verbatim>\<open><\<close> is bytewise lexicographic, which is the order
  that \<^theory_text>\<open>List_Lexorder\<close> and \<^theory_text>\<open>Char_ord\<close> give to \<^typ>\<open>string\<close>.

  \<^verbatim>\<open>float64\<close> fields are only copied by the code under study, never computed with, so
  they are carried as \<^typ>\<open>real\<close>. Go's \<^verbatim>\<open>int\<close> and \<^verbatim>\<open>int64\<close> values are \<^typ>\<open>int\<close>; the
  arithmetic on them (thirty days added to a clock reading, at most 168 hours taken from
  one) stays far inside 64 bits.
\<close>

type_synonym float64 = real

text \<open>
  \<^verbatim>\<open>time.Time\<close> is an instant, held here as nanoseconds since the Unix epoch;
  \<^verbatim>\<open>time.Duration\<close> is a number of nanoseconds.
\<close>

type_synonym Time = int
type_synonym Duration = int

definition Second :: Duration where
  "Second = 1000000000"

definition Hour :: Duration where
  "Hour = 3600 * Second"

definition Add :: "Time \<Rightarrow> Duration \<Rightarrow> Time" where
  "Add t d = t + d"

definition Unix :: "Time \<Rightarrow> int" where
  "Unix t = t div Second"

subsection \<open>Decimal rendering and parsing\<close>

definition digitChar :: "int \<Rightarrow> char" where
  "digitChar d = char_of (48 + d)"

function decimal :: "int \<Rightarrow> string" where
  "decimal n = (if n < 10 then [digitChar n] else decimal (n div 10) @ [digitChar (n mod 10)])"
  by pat_completeness auto
termination
  by (relation "measure nat") auto

declare decimal.simps [simp del]

text \<open>The verb \<^verbatim>\<open>%d\<close> of \<^verbatim>\<open>fmt.Sprintf\<close> on an integer.\<close>

definition formatInt :: "int \<Rightarrow> string" where
  "formatInt i = (if i < 0 then CHR ''-'' # decimal (- i) else decimal i)"

definition isDigit :: "char \<Rightarrow> bool" where
  "isDigit c = (CHR ''0'' \<le> c \<and> c \<le> CHR ''9'')"

definition digitVal :: "char \<Rightarrow> int" where
  "digitVal c = of_char c - 48"

fun parseDigits :: "string \<Rightarrow> int \<Rightarrow> int option" where
  "parseDigits [] n = Some n"
| "parseDigits (c # cs) n =
     (if isDigit c then parseDigits cs (n * 10 + digitVal c) else None)"

text \<open>
  \<^verbatim>\<open>strconv.Atoi\<close>: an optional sign, then one or more decimal digits, and the value
  must fit a 64-bit signed integer. \<open>None\<close> stands for a non-nil error.
\<close>

definition Atoi :: "string \<Rightarrow> int option" where
  "Atoi s =
     (case s of
        [] \<Rightarrow> None
      | c # cs \<Rightarrow>
          (let neg = (c = CHR ''-'');
               ds = (if c = CHR ''-'' \<or> c = CHR ''+'' then cs else s)
           in if ds = [] then None
              else (case parseDigits ds 0 of
                      None \<Rightarrow> None
                    | Some n \<Rightarrow>
                        (let v = (if neg then - n else n)
                         in if - 9223372036854775808 \<le> v \<and> v < 9223372036854775808
                            then Some v else None))))"

subsection \<open>Regular expressions\<close>

text \<open>
  The two patterns of the history endpoint use literals, character classes, alternation
  and concatenation only. A class is a list of inclusive byte ranges. Matching is by
  derivatives; \<open>fullMatch\<close> is a pattern anchored with \<^verbatim>\<open>^\<close> and \<^verbatim>\<open>$\<close> (without the
  multi-line flag Go's \<^verbatim>\<open>$\<close> matches at the end of the text only).
\<close>

type_synonym charClass = "(char \<times> char) list"

definition inClass :: "charClass \<Rightarrow> char \<Rightarrow> bool" where
  "inClass cls c = list_ex (\<lambda>(lo, hi). lo \<le> c \<and> c \<le> hi) cls"

datatype rexp =
    Fail
  | Eps
  | Class charClass
  | Alt rexp rexp
  | Seq rexp rexp

fun nullable :: "rexp \<Rightarrow> bool" where
  "nullable Fail = False"
| "nullable Eps = True"
| "nullable (Class cls) = False"
| "nullable (Alt r s) = (nullable r \<or> nullable s)"
| "nullable (Seq r s) = (nullable r \<and> nullable s)"

fun deriv :: "char \<Rightarrow> rexp \<Rightarrow> rexp" where
  "deriv c Fail = Fail"
| "deriv c Eps = Fail"
| "deriv c (Class cls) = (if inClass cls c then Eps else Fail)"
| "deriv c (Alt r s) = Alt (deriv c r) (deriv c s)"
| "deriv c (Seq r s) =
     (if nullable r then Alt (Seq (deriv c r) s) (deriv c s) else Seq (deriv c r) s)"

fun fullMatch :: "rexp \<Rightarrow> string \<Rightarrow> bool" where
  "fullMatch r [] = nullable r"
| "fullMatch r (c # cs) = fullMatch (deriv c r) cs"

definition Lit :: "string \<Rightarrow> rexp" where
  "Lit s = foldr (\<lambda>c r. Seq (Class [(c, c)]) r) s Eps"

section \<open>Data model\<close>

text \<open>
  The structs of package \<^verbatim>\<open>models\<close>. Isabelle record fields share one name space, so a
  field whose Go name occurs in two structs carries the struct's name in front.
\<close>

record Coord =
  Lon :: float64
  Lat :: float64

record Main =
  Temp :: float64
  FeelsLike :: float64
  TempMin :: float64
  TempMax :: float64
  Main_Pressure :: int
  Main_Humidity :: int

record Weather =
  Weather_ID :: int
  Weather_Main :: string
  Weather_Description :: string
  Icon :: string

record Wind =
  Speed :: float64
  Deg :: int

record Clouds =
  Clouds_All :: int

record Sys =
  Sys_Country :: string
  Sunrise :: int
  Sunset :: int

record WeatherResponse =
  Name :: string
  Coord :: Coord
  Main :: Main
  Weather :: "Weather list"
  Wind :: Wind
  Clouds :: Clouds
  Sys :: Sys
  Dt :: int

record WeatherRecord =
  ID :: string
  Timestamp :: string
  CityName :: string
  Temperature :: float64
  Description :: string
  Humidity :: int
  Pressure :: int
  WindSpeed :: float64
  Country :: string
  CreatedAt :: Time
  TTL :: int

record S3WeatherData =
  WeatherRecord :: WeatherRecord
  RawResponse :: WeatherResponse

section \<open>The weather service: mapping a provider response\<close>

text \<open>
  \<^verbatim>\<open>ConvertToWeatherRecord\<close> reads the clock once. The reading \<open>now\<close> and the library
  function \<^verbatim>\<open>Time.Format(time.RFC3339)\<close> are parameters. The description is assigned
  only when the condition list has an element; otherwise the field keeps the zero value
  of a Go string.
\<close>

definition ConvertToWeatherRecord ::
    "(Time \<Rightarrow> string) \<Rightarrow> Time \<Rightarrow> WeatherResponse \<Rightarrow> WeatherRecord" where
  "ConvertToWeatherRecord formatRFC3339 now response =
     (let ttl = Unix (Add now (30 * 24 * Hour));
          record = \<lparr>ID = Name response @ ''-'' @ formatInt (Unix now),
                    Timestamp = formatRFC3339 now,
                    CityName = Name response,
                    Temperature = 0,
                    Description = [],
                    Humidity = Main_Humidity (Main response),
                    Pressure = Main_Pressure (Main response),
                    WindSpeed = 0,
                    Country = Sys_Country (Sys response),
                    CreatedAt = now,
                    TTL = ttl\<rparr>;
          record = record\<lparr>Temperature := Temp (Main response)\<rparr>;
          record = (case Weather response of
                      [] \<Rightarrow> record
                    | w # _ \<Rightarrow> record\<lparr>Description := Weather_Description w\<rparr>);
          record = record\<lparr>WindSpeed := Speed (Wind response)\<rparr>
      in record)"

definition ConvertToS3Data :: "WeatherResponse \<Rightarrow> WeatherRecord \<Rightarrow> S3WeatherData" where
  "ConvertToS3Data response record = \<lparr>WeatherRecord = record, RawResponse = response\<rparr>"

section \<open>The table store accessor: reading a time window\<close>

text \<open>
  \<^verbatim>\<open>sort.Slice\<close> sorts a slice of at most twelve elements by insertion: each element in
  turn is swapped towards the front while \<open>lt\<close> holds between it and its predecessor.
  \<open>insertLess\<close> is that inner loop on the sorted prefix held in reverse. Longer slices
  go through the library's quicksort variant, which gives the same ascending order of the
  same elements and promises nothing about the order of elements that compare equal.
\<close>

fun insertLess :: "('a \<Rightarrow> 'a \<Rightarrow> bool) \<Rightarrow> 'a \<Rightarrow> 'a list \<Rightarrow> 'a list" where
  "insertLess lt x [] = [x]"
| "insertLess lt x (y # ys) = (if lt x y then y # insertLess lt x ys else x # y # ys)"

definition sortSlice :: "('a \<Rightarrow> 'a \<Rightarrow> bool) \<Rightarrow> 'a list \<Rightarrow> 'a list" where
  "sortSlice lt xs = rev (foldl (\<lambda>done x. insertLess lt x done) [] xs)"

text \<open>
  The request sent to the table store and what comes back: the pages delivered, in order,
  and the error that ended the scan, if one did. An item is a value of the store's own
  attribute-map type \<open>'item\<close>.
\<close>

record ScanInput =
  TableName :: string
  FilterExpression :: string
  ExpressionAttributeNames :: "(string \<times> string) list"
  ExpressionAttributeValues :: "(string \<times> string) list"

record 'item ScanOutput =
  Pages :: "'item list list"
  ScanError :: "string option"

text \<open>
  \<^verbatim>\<open>ScanPagesWithContext\<close> hands each page to the callback together with the flag
  \<open>lastPage\<close>, and stops early when the callback returns false. The flag is set on the
  final page of a scan that ran to its end (\<open>ended\<close>).
\<close>

fun ScanPages ::
    "('item list \<Rightarrow> bool \<Rightarrow> 'acc \<Rightarrow> 'acc \<times> bool) \<Rightarrow> bool \<Rightarrow> 'item list list \<Rightarrow> 'acc \<Rightarrow> 'acc" where
  "ScanPages fn ended [] acc = acc"
| "ScanPages fn ended (page # rest) acc =
     (case fn page (rest = [] \<and> ended) acc of
        (acc', continue) \<Rightarrow> if continue then ScanPages fn ended rest acc' else acc')"

text \<open>
  The external parts of the history endpoint: the clock reading of the request, the time
  formatter, the configured default city and table, the table store's answer to a scan,
  \<^verbatim>\<open>dynamodbattribute.UnmarshalMap\<close> (\<open>None\<close> for an error), and which records
  \<^verbatim>\<open>json.Marshal\<close> can encode. Every other part of the response is made of strings and
  integers, which always encode.
\<close>

record 'item HistoryEnv =
  timeNow :: Time
  formatRFC3339 :: "Time \<Rightarrow> string"
  defaultCityName :: string
  tableName :: string
  scan :: "ScanInput \<Rightarrow> 'item ScanOutput"
  unmarshalMap :: "'item \<Rightarrow> WeatherRecord option"
  jsonEncodable :: "WeatherRecord \<Rightarrow> bool"

text \<open>The body of the page callback: items that fail to decode are skipped.\<close>

definition collectPage ::
    "('item \<Rightarrow> WeatherRecord option) \<Rightarrow> 'item list \<Rightarrow> WeatherRecord list \<Rightarrow> WeatherRecord list" where
  "collectPage unmarshal items records =
     foldl (\<lambda>records item.
              (case unmarshal item of
                 None \<Rightarrow> records
               | Some record \<Rightarrow> records @ [record]))
       records items"

definition historyScanInput :: "'item HistoryEnv \<Rightarrow> string \<Rightarrow> Time \<Rightarrow> Time \<Rightarrow> ScanInput" where
  "historyScanInput env cityName startTime endTime =
     (let startTimeStr = formatRFC3339 env startTime;
          endTimeStr = formatRFC3339 env endTime
      in \<lparr>TableName = tableName env,
          FilterExpression = ''cityName = :city AND #ts BETWEEN :start AND :end'',
          ExpressionAttributeNames = [(''#ts'', ''timestamp'')],
          ExpressionAttributeValues =
            [('':city'', cityName), ('':start'', startTimeStr), ('':end'', endTimeStr)]\<rparr>)"

definition GetWeatherHistory ::
    "'item HistoryEnv \<Rightarrow> string \<Rightarrow> Time \<Rightarrow> Time \<Rightarrow> string + WeatherRecord list" where
  "GetWeatherHistory env cityName startTime endTime =
     (let input = historyScanInput env cityName startTime endTime;
          output = scan env input;
          records =
            ScanPages
              (\<lambda>page lastPage records. (collectPage (unmarshalMap env) page records, \<not> lastPage))
              (ScanError output = None) (Pages output) []
      in (case ScanError output of
            Some err \<Rightarrow> Inl (''failed to scan weather history: '' @ err)
          | None \<Rightarrow> Inr (sortSlice (\<lambda>a b. Timestamp a < Timestamp b) records)))"

section \<open>The history endpoint: validation of the query parameters\<close>

text \<open>
  The pattern of \<^verbatim>\<open>isValidPeriod\<close>, alternative by alternative:
  \<^verbatim>\<open>^(6h|24h|1d|[1-9]|[1-9][0-9]|1[0-6][0-8])$\<close>. The error of
  \<^verbatim>\<open>regexp.MatchString\<close> is dropped by the code; the pattern compiles, so there is none.
\<close>

definition periodPattern :: rexp where
  "periodPattern =
     Alt (Lit ''6h'')
    (Alt (Lit ''24h'')
    (Alt (Lit ''1d'')
    (Alt (Class [(CHR ''1'', CHR ''9'')])
    (Alt (Seq (Class [(CHR ''1'', CHR ''9'')]) (Class [(CHR ''0'', CHR ''9'')]))
         (Seq (Lit ''1'')
           (Seq (Class [(CHR ''0'', CHR ''6'')]) (Class [(CHR ''0'', CHR ''8'')])))))))"

definition isValidPeriod :: "string \<Rightarrow> bool" where
  "isValidPeriod period = fullMatch periodPattern period"

text \<open>
  \<^verbatim>\<open>strings.TrimSpace\<close> removes leading and trailing runes for which
  \<^verbatim>\<open>unicode.IsSpace\<close> holds. On the bytes of a string, the first (last) rune is such a
  space exactly when the string starts (ends) with the UTF-8 encoding of one: the six
  ASCII spaces, U+0085, U+00A0, U+1680, U+2000 to U+200A, U+2028, U+2029, U+202F, U+205F
  and U+3000. A byte that does not start a valid encoding decodes to U+FFFD, no space.
\<close>

definition spaceRunes :: "string list" where
  "spaceRunes =
     [[CHR 0x09], [CHR 0x0A], [CHR 0x0B], [CHR 0x0C], [CHR 0x0D], [CHR 0x20],
      [CHR 0xC2, CHR 0x85], [CHR 0xC2, CHR 0xA0],
      [CHR 0xE1, CHR 0x9A, CHR 0x80],
      [CHR 0xE2, CHR 0x80, CHR 0x80], [CHR 0xE2, CHR 0x80, CHR 0x81],
      [CHR 0xE2, CHR 0x80, CHR 0x82], [CHR 0xE2, CHR 0x80, CHR 0x83],
      [CHR 0xE2, CHR 0x80, CHR 0x84], [CHR 0xE2, CHR 0x80, CHR 0x85],
      [CHR 0xE2, CHR 0x80, CHR 0x86], [CHR 0xE2, CHR 0x80, CHR 0x87],
      [CHR 0xE2, CHR 0x80, CHR 0x88], [CHR 0xE2, CHR 0x80, CHR 0x89],
      [CHR 0xE2, CHR 0x80, CHR 0x8A],
      [CHR 0xE2, CHR 0x80, CHR 0xA8], [CHR 0xE2, CHR 0x80, CHR 0xA9],
      [CHR 0xE2, CHR 0x80, CHR 0xAF], [CHR 0xE2, CHR 0x81, CHR 0x9F],
      [CHR 0xE3, CHR 0x80, CHR 0x80]]"

definition leadingSpace :: "string \<Rightarrow> nat" where
  "leadingSpace s =
     (case find (\<lambda>p. length p \<le> length s \<and> take (length p) s = p) spaceRunes of
        None \<Rightarrow> 0
      | Some p \<Rightarrow> length p)"

definition trailingSpace :: "string \<Rightarrow> nat" where
  "trailingSpace s =
     (case find (\<lambda>p. length p \<le> length s \<and> drop (length s - length p) s = p) spaceRunes of
        None \<Rightarrow> 0
      | Some p \<Rightarrow> length p)"

function trimLeft :: "string \<Rightarrow> string" where
  "trimLeft s = (if leadingSpace s = 0 then s else trimLeft (drop (leadingSpace s) s))"
  by pat_completeness auto
termination
proof (relation "measure length")
  show "wf (measure length)" by simp
next
  fix s :: string
  assume "leadingSpace s \<noteq> 0"
  moreover have "leadingSpace s \<le> length s"
    by (auto simp: leadingSpace_def find_Some_iff split: option.splits)
  ultimately show "(drop (leadingSpace s) s, s) \<in> measure length" by simp
qed

function trimRight :: "string \<Rightarrow> string" where
  "trimRight s =
     (if trailingSpace s = 0 then s else trimRight (take (length s - trailingSpace s) s))"
  by pat_completeness auto
termination
proof (relation "measure length")
  show "wf (measure length)" by simp
next
  fix s :: string
  assume "trailingSpace s \<noteq> 0"
  moreover have "trailingSpace s \<le> length s"
    by (auto simp: trailingSpace_def find_Some_iff split: option.splits)
  ultimately show "(take (length s - trailingSpace s) s, s) \<in> measure length" by simp
qed

declare trimLeft.simps [simp del] trimRight.simps [simp del]

definition TrimSpace :: "string \<Rightarrow> string" where
  "TrimSpace s = trimRight (trimLeft s)"

text \<open>
  \<^verbatim>\<open>[^a-zA-Z\s\-]\<close>: any rune that is not an ASCII letter, one of the Perl spaces
  (tab, line feed, form feed, carriage return, space) or a hyphen. The class below is the
  complement, the bytes that \<^verbatim>\<open>ReplaceAllString(city, "")\<close> keeps. Every byte of a rune
  beyond ASCII, and every byte of an invalid encoding, is 0x80 or more and outside it, so
  deleting the matching runes is deleting the bytes outside the class.
\<close>

definition cityClass :: charClass where
  "cityClass =
     [(CHR ''a'', CHR ''z''), (CHR ''A'', CHR ''Z''),
      (CHR 0x09, CHR 0x0A), (CHR 0x0C, CHR 0x0D), (CHR 0x20, CHR 0x20),
      (CHR ''-'', CHR ''-'')]"

definition sanitizeCityName :: "string \<Rightarrow> string" where
  "sanitizeCityName city =
     (let city = TrimSpace city;
          city = filter (inClass cityClass) city
      in if length city > 50 then take 50 city else city)"

section \<open>The history endpoint: the request handler\<close>

record APIGatewayProxyRequest =
  HTTPMethod :: string
  Headers :: "string \<rightharpoonup> string"
  QueryStringParameters :: "string \<rightharpoonup> string"

record WeatherHistoryResponse =
  History_StatusCode :: int
  History_Message :: string
  Data :: "WeatherRecord list"
  Count :: int
  Period :: string
  StartTime :: string
  EndTime :: string

text \<open>
  The body of a response is a string in Go. It is kept structured here: the empty string,
  the JSON object \<^verbatim>\<open>{"error": msg}\<close>, or the JSON encoding of a history response.
\<close>

datatype Body =
    EmptyBody
  | ErrorBody string
  | HistoryBody WeatherHistoryResponse

record APIGatewayProxyResponse =
  StatusCode :: int
  Proxy_Headers :: "(string \<times> string) list"
  Body :: Body

text \<open>Indexing a Go map with a key it does not hold gives the zero value.\<close>

definition lookup :: "(string \<rightharpoonup> string) \<Rightarrow> string \<Rightarrow> string" where
  "lookup m k = (case m k of None \<Rightarrow> [] | Some v \<Rightarrow> v)"

definition corsHeaders :: "(string \<times> string) list" where
  "corsHeaders =
     [(''Access-Control-Allow-Origin'', ''*''),
      (''Access-Control-Allow-Headers'',
         ''Content-Type,X-Amz-Date,Authorization,X-Api-Key,X-Amz-Security-Token''),
      (''Access-Control-Allow-Methods'', ''GET,OPTIONS''),
      (''Content-Type'', ''application/json'')]"

text \<open>
  The period and the city the handler works with: the query parameter, or the default
  when the parameter is absent or empty; the city is sanitized.
\<close>

definition requestPeriod :: "APIGatewayProxyRequest \<Rightarrow> string" where
  "requestPeriod request =
     (let period = lookup (QueryStringParameters request) ''period''
      in if period = [] then ''6h'' else period)"

definition requestCity :: "'item HistoryEnv \<Rightarrow> APIGatewayProxyRequest \<Rightarrow> string" where
  "requestCity h request =
     (let city = lookup (QueryStringParameters request) ''city'';
          city = (if city = [] then defaultCityName h else city)
      in sanitizeCityName city)"

text \<open>
  The \<^verbatim>\<open>switch\<close> on the period. Its three branches run the same statements and differ
  in the number of hours only; \<open>None\<close> is the \<^verbatim>\<open>else\<close> of the default branch.
\<close>

definition periodHours :: "string \<Rightarrow> int option" where
  "periodHours period =
     (if period = ''6h'' then Some 6
      else if period = ''24h'' \<or> period = ''1d'' then Some 24
      else (case Atoi period of
              Some hours \<Rightarrow> if hours > 0 \<and> hours \<le> 168 then Some hours else None
            | None \<Rightarrow> None))"

text \<open>The text of the second 400 response, with its apostrophes.\<close>

definition periodHelpMessage :: string where
  "periodHelpMessage =
     ''Invalid period. Use '' @ [CHR 0x27] @ ''6h'' @ [CHR 0x27] @ '', ''
     @ [CHR 0x27] @ ''24h'' @ [CHR 0x27] @ '', or number of hours (1-168)''"

definition History_HandleRequest ::
    "'item HistoryEnv \<Rightarrow> APIGatewayProxyRequest \<Rightarrow> APIGatewayProxyResponse" where
  "History_HandleRequest h request =
     (let headers = corsHeaders in
      if HTTPMethod request = ''OPTIONS'' then
        \<lparr>StatusCode = 200, Proxy_Headers = headers, Body = EmptyBody\<rparr>
      else if HTTPMethod request \<noteq> ''GET'' then
        \<lparr>StatusCode = 405, Proxy_Headers = headers, Body = ErrorBody ''Method not allowed''\<rparr>
      else if lookup (Headers request) ''X-API-Key'' = []
              \<and> lookup (Headers request) ''x-api-key'' = [] then
        \<lparr>StatusCode = 401, Proxy_Headers = headers, Body = ErrorBody ''API key required''\<rparr>
      else
        let period = requestPeriod request in
        if \<not> isValidPeriod period then
          \<lparr>StatusCode = 400, Proxy_Headers = headers,
           Body = ErrorBody ''Invalid period parameter''\<rparr>
        else
          let city = requestCity h request in
          (case periodHours period of
             None \<Rightarrow>
               \<lparr>StatusCode = 400, Proxy_Headers = headers,
                Body = ErrorBody periodHelpMessage\<rparr>
           | Some hours \<Rightarrow>
               (let endTime = timeNow h;
                    startTime = Add endTime (- hours * Hour)
                in case GetWeatherHistory h city startTime endTime of
                     Inl err \<Rightarrow>
                       \<lparr>StatusCode = 500, Proxy_Headers = headers,
                        Body = ErrorBody ''Failed to retrieve weather history''\<rparr>
                   | Inr records \<Rightarrow>
                       (let response =
                              \<lparr>History_StatusCode = 200,
                               History_Message = ''Weather history retrieved successfully'',
                               Data = records,
                               Count = int (length records),
                               Period = period,
                               StartTime = formatRFC3339 h startTime,
                               EndTime = formatRFC3339 h endTime\<rparr>
                        in if \<not> list_all (jsonEncodable h) records then
                             \<lparr>StatusCode = 500, Proxy_Headers = headers,
                              Body = ErrorBody ''Failed to create response''\<rparr>
                           else
                             \<lparr>StatusCode = 200, Proxy_Headers = headers,
                              Body = HistoryBody response\<rparr>))))"

section \<open>The collector\<close>

text \<open>
  What the provider call gives back: a transport error, or a status with the body read
  so far and the error of reading it, if any.
\<close>

record HTTPResponse =
  HTTP_StatusCode :: int
  HTTP_Body :: string
  HTTP_ReadError :: "string option"

text \<open>
  The external parts of the collector: two clock readings (one in the record mapper, one
  in the blob accessor), the time formatters, the outcome of parsing the configured URL
  and of the GET request, the JSON decoder, and for each store whether encoding and
  writing fail (\<open>Some\<close> the library's error text) or succeed.
\<close>

record CollectorEnv =
  convertNow :: Time
  storeNow :: Time
  timeFormatRFC3339 :: "Time \<Rightarrow> string"
  timeFormatYear :: "Time \<Rightarrow> string"
  timeFormatMonthDay :: "Time \<Rightarrow> string"
  urlParseError :: "string option"
  httpGet :: "string + HTTPResponse"
  jsonUnmarshal :: "string \<Rightarrow> string + WeatherResponse"
  marshalMapError :: "WeatherRecord \<Rightarrow> string option"
  putItemError :: "WeatherRecord \<Rightarrow> string option"
  marshalIndentError :: "S3WeatherData \<Rightarrow> string option"
  putObjectError :: "string \<Rightarrow> S3WeatherData \<Rightarrow> string option"

definition GetWeatherData :: "CollectorEnv \<Rightarrow> string + WeatherResponse" where
  "GetWeatherData env =
     (case urlParseError env of
        Some err \<Rightarrow> Inl (''invalid weather API URL: '' @ err)
      | None \<Rightarrow>
          (case httpGet env of
             Inl err \<Rightarrow> Inl (''failed to make weather API request: '' @ err)
           | Inr resp \<Rightarrow>
               if HTTP_StatusCode resp \<noteq> 200 then
                 Inl (''weather API returned status '' @ formatInt (HTTP_StatusCode resp)
                      @ '': '' @ HTTP_Body resp)
               else
                 (case HTTP_ReadError resp of
                    Some err \<Rightarrow> Inl (''failed to read weather API response: '' @ err)
                  | None \<Rightarrow>
                      (case jsonUnmarshal env (HTTP_Body resp) of
                         Inl err \<Rightarrow> Inl (''failed to parse weather API response: '' @ err)
                       | Inr weatherResponse \<Rightarrow> Inr weatherResponse))))"

text \<open>
  The two stores and the requests sent to them. The table is keyed by identifier and
  timestamp, the bucket by object key. \<open>calls\<close> lists the write requests in the order
  they were issued, whether or not the store accepted them.
\<close>

datatype Call =
    PutItem WeatherRecord
  | PutObject string S3WeatherData

record World =
  table :: "(string \<times> string) \<rightharpoonup> WeatherRecord"
  bucket :: "string \<rightharpoonup> S3WeatherData"
  calls :: "Call list"

definition StoreWeatherRecord ::
    "CollectorEnv \<Rightarrow> World \<Rightarrow> WeatherRecord \<Rightarrow> string option \<times> World" where
  "StoreWeatherRecord env world record =
     (case marshalMapError env record of
        Some err \<Rightarrow> (Some (''failed to marshal weather record: '' @ err), world)
      | None \<Rightarrow>
          (let world = world\<lparr>calls := calls world @ [PutItem record]\<rparr> in
           case putItemError env record of
             Some err \<Rightarrow> (Some (''failed to put item to DynamoDB: '' @ err), world)
           | None \<Rightarrow>
               (None, world\<lparr>table := (table world)((ID record, Timestamp record) \<mapsto> record)\<rparr>)))"

definition StoreWeatherData ::
    "CollectorEnv \<Rightarrow> World \<Rightarrow> S3WeatherData \<Rightarrow> string option \<times> World" where
  "StoreWeatherData env world data =
     (case marshalIndentError env data of
        Some err \<Rightarrow> (Some (''failed to marshal weather data: '' @ err), world)
      | None \<Rightarrow>
          (let now = storeNow env;
               key = ''weather-data/'' @ timeFormatYear env now @ ''/''
                     @ timeFormatMonthDay env now @ ''/''
                     @ ID (WeatherRecord data) @ ''.json'';
               world = world\<lparr>calls := calls world @ [PutObject key data]\<rparr>
           in case putObjectError env key data of
                Some err \<Rightarrow> (Some (''failed to upload to S3: '' @ err), world)
              | None \<Rightarrow> (None, world\<lparr>bucket := (bucket world)(key \<mapsto> data)\<rparr>)))"

text \<open>
  The collector's response. \<open>Response_Data\<close> is the map with the keys \<^verbatim>\<open>city\<close>,
  \<^verbatim>\<open>temperature\<close>, \<^verbatim>\<open>description\<close>, \<^verbatim>\<open>timestamp\<close> and \<^verbatim>\<open>recordId\<close>, absent on
  failure; each key is a field here, with \<open>data_\<close> in front.
\<close>

record ResponseData =
  data_city :: string
  data_temperature :: float64
  data_description :: string
  data_timestamp :: string
  data_recordId :: string

record Response =
  Response_StatusCode :: int
  Response_Message :: string
  Response_Data :: "ResponseData option"

text \<open>A run-time panic of Go: an index outside a slice, with the index and the length.\<close>

datatype Panic = IndexOutOfRange nat nat

text \<open>
  The handler. After a successful fetch it logs the city, the temperature and
  \<^verbatim>\<open>weatherResponse.Weather[0].Description\<close>; evaluating that argument indexes the
  condition list before any conversion or write.
\<close>

definition Collector_HandleRequest :: "CollectorEnv \<Rightarrow> World \<Rightarrow> (Panic + Response) \<times> World" where
  "Collector_HandleRequest h world =
     (case GetWeatherData h of
        Inl err \<Rightarrow>
          (Inr \<lparr>Response_StatusCode = 500,
                Response_Message = ''Failed to fetch weather data: '' @ err,
                Response_Data = None\<rparr>, world)
      | Inr weatherResponse \<Rightarrow>
          (case Weather weatherResponse of
             [] \<Rightarrow> (Inl (IndexOutOfRange 0 0), world)
           | logged # _ \<Rightarrow>
               (let weatherRecord =
                      ConvertToWeatherRecord (timeFormatRFC3339 h) (convertNow h) weatherResponse;
                    s3Data = ConvertToS3Data weatherResponse weatherRecord
                in case StoreWeatherRecord h world weatherRecord of
                     (Some err, world) \<Rightarrow>
                       (Inr \<lparr>Response_StatusCode = 500,
                             Response_Message = ''Failed to store to DynamoDB: '' @ err,
                             Response_Data = None\<rparr>, world)
                   | (None, world) \<Rightarrow>
                       (case StoreWeatherData h world s3Data of
                          (Some err, world) \<Rightarrow>
                            (Inr \<lparr>Response_StatusCode = 500,
                                  Response_Message = ''Failed to store to S3: '' @ err,
                                  Response_Data = None\<rparr>, world)
                        | (None, world) \<Rightarrow>
                            (Inr \<lparr>Response_StatusCode = 200,
                                  Response_Message = ''Weather data processed successfully'',
                                  Response_Data =
                                    Some \<lparr>data_city = CityName weatherRecord,
                                          data_temperature = Temperature weatherRecord,
                                          data_description = Description weatherRecord,
                                          data_timestamp = Timestamp weatherRecord,
                                          data_recordId = ID weatherRecord\<rparr>\<rparr>, world)))))"

section \<open>Sample values\<close>

text \<open>
  Concrete inputs at which the theorems below are instantiated. In the sample store an
  item is an optional record: \<open>None\<close> is an item that does not decode. The sample
  formatter prints the Unix seconds of an instant; no property depends on the format.
\<close>

definition sampleRecord :: "string \<Rightarrow> string \<Rightarrow> WeatherRecord" where
  "sampleRecord ident ts =
     \<lparr>ID = ident, Timestamp = ts, CityName = ''Tokyo'', Temperature = 25.5,
      Description = ''Clear sky'', Humidity = 60, Pressure = 1013, WindSpeed = 3.5,
      Country = ''JP'', CreatedAt = 0, TTL = 2592000\<rparr>"

definition sampleHistoryEnv :: "WeatherRecord option list list \<Rightarrow> WeatherRecord option HistoryEnv" where
  "sampleHistoryEnv pages =
     \<lparr>timeNow = 1700000000 * Second,
      formatRFC3339 = (\<lambda>t. formatInt (Unix t)),
      defaultCityName = ''Tokyo'',
      tableName = ''weather-data'',
      scan = (\<lambda>input. \<lparr>Pages = pages, ScanError = None\<rparr>),
      unmarshalMap = (\<lambda>item. item),
      jsonEncodable = (\<lambda>record. True)\<rparr>"

definition sampleRequest :: "string \<Rightarrow> string \<Rightarrow> APIGatewayProxyRequest" where
  "sampleRequest headerName period =
     \<lparr>HTTPMethod = ''GET'',
      Headers = [headerName \<mapsto> ''secret''],
      QueryStringParameters = [''period'' \<mapsto> period]\<rparr>"

text \<open>
  The provider response of the repository's test \<^verbatim>\<open>TestConvertToWeatherRecord\<close>; the
  fields the test leaves out have Go's zero values.
\<close>

definition mockResponse :: WeatherResponse where
  "mockResponse =
     \<lparr>Name = ''Tokyo'',
      Coord = \<lparr>Lon = 0, Lat = 0\<rparr>,
      Main = \<lparr>Temp = 25.5, FeelsLike = 0, TempMin = 0, TempMax = 0,
              Main_Pressure = 1013, Main_Humidity = 60\<rparr>,
      Weather = [\<lparr>Weather_ID = 0, Weather_Main = [], Weather_Description = ''Clear sky'', Icon = []\<rparr>],
      Wind = \<lparr>Speed = 3.5, Deg = 0\<rparr>,
      Clouds = \<lparr>Clouds_All = 0\<rparr>,
      Sys = \<lparr>Sys_Country = ''JP'', Sunrise = 0, Sunset = 0\<rparr>,
      Dt = 0\<rparr>"

text \<open>
  A collector environment in which the provider answers 200 and the body decodes to
  \<open>decoded\<close>, and in which the table write and the blob write fail as given.
\<close>

definition sampleCollectorEnv ::
    "WeatherResponse \<Rightarrow> string option \<Rightarrow> string option \<Rightarrow> CollectorEnv" where
  "sampleCollectorEnv decoded tableFailure blobFailure =
     \<lparr>convertNow = 1700000000 * Second,
      storeNow = 1700000001 * Second,
      timeFormatRFC3339 = (\<lambda>t. formatInt (Unix t)),
      timeFormatYear = (\<lambda>t. ''2023''),
      timeFormatMonthDay = (\<lambda>t. ''11-14''),
      urlParseError = None,
      httpGet = Inr \<lparr>HTTP_StatusCode = 200, HTTP_Body = ''{}'', HTTP_ReadError = None\<rparr>,
      jsonUnmarshal = (\<lambda>body. Inr decoded),
      marshalMapError = (\<lambda>record. None),
      putItemError = (\<lambda>record. tableFailure),
      marshalIndentError = (\<lambda>data. None),
      putObjectError = (\<lambda>key data. blobFailure)\<rparr>"

definition emptyWorld :: World where
  "emptyWorld = \<lparr>table = Map.empty, bucket = Map.empty, calls = []\<rparr>"

text \<open>An ASCII letter, for stating what the city sanitizer keeps.\<close>

definition asciiLetter :: "char \<Rightarrow> bool" where
  "asciiLetter c = ((CHR ''a'' \<le> c \<and> c \<le> CHR ''z'') \<or> (CHR ''A'' \<le> c \<and> c \<le> CHR ''Z''))"

section \<open>Properties of the table store accessor\<close>

lemma map_filter_append:
  "List.map_filter f (xs @ ys) = List.map_filter f xs @ List.map_filter f ys"
  by (simp add: List.map_filter_def)

lemma map_filter_concat:
  "List.map_filter f (concat xss) = concat (map (List.map_filter f) xss)"
  by (induction xss) (simp_all add: map_filter_append)

lemma mset_map_filter:
  "mset (List.map_filter u xs) =
     image_mset (\<lambda>x. the (u x)) (filter_mset (\<lambda>x. u x \<noteq> None) (mset xs))"
  by (induction xs) (auto split: option.splits)

lemma collectPage_eq: "collectPage u items rs = rs @ List.map_filter u items"
  unfolding collectPage_def
  by (induction items arbitrary: rs) (auto split: option.splits)

text \<open>The callback never stops the scan early, so every delivered page is read.\<close>

lemma ScanPages_append:
  "ScanPages (\<lambda>page lastPage records. (records @ g page, \<not> lastPage)) ended pages acc
     = acc @ concat (map g pages)"
proof (induction pages arbitrary: acc)
  case Nil
  show ?case by simp
next
  case (Cons page rest)
  show ?case
  proof (cases "rest = [] \<and> ended")
    case True
    then show ?thesis by simp
  next
    case False
    then show ?thesis using Cons.IH [of "acc @ g page"] by simp
  qed
qed

lemma ScanPages_collect:
  "ScanPages (\<lambda>page lastPage records. (collectPage u page records, \<not> lastPage)) ended pages acc
     = acc @ List.map_filter u (concat pages)"
  by (simp add: collectPage_eq ScanPages_append map_filter_concat)

lemma insertLess_mset: "mset (insertLess lt x ys) = add_mset x (mset ys)"
  by (induction ys) auto

lemma insertLess_set: "set (insertLess lt x ys) = insert x (set ys)"
  by (induction ys) auto

lemma sortSlice_mset: "mset (sortSlice lt xs) = mset xs"
proof -
  have "mset (foldl (\<lambda>done x. insertLess lt x done) acc xs) = mset acc + mset xs" for acc
    by (induction xs arbitrary: acc) (auto simp: insertLess_mset)
  then show ?thesis by (simp add: sortSlice_def)
qed

lemma insertLess_descending:
  fixes f :: "'a \<Rightarrow> 'k::linorder"
  assumes "sorted_wrt (\<lambda>a b. f b \<le> f a) ys"
  shows "sorted_wrt (\<lambda>a b. f b \<le> f a) (insertLess (\<lambda>a b. f a < f b) x ys)"
  using assms
proof (induction ys)
  case Nil
  show ?case by simp
next
  case (Cons y ys)
  show ?case
  proof (cases "f x < f y")
    case True
    with Cons show ?thesis by (auto simp: insertLess_set)
  next
    case False
    with Cons show ?thesis by fastforce
  qed
qed

lemma sortSlice_sorted:
  fixes f :: "'a \<Rightarrow> 'k::linorder"
  shows "sorted (map f (sortSlice (\<lambda>a b. f a < f b) xs))"
proof -
  have "sorted_wrt (\<lambda>a b. f b \<le> f a) acc \<Longrightarrow>
        sorted_wrt (\<lambda>a b. f b \<le> f a)
          (foldl (\<lambda>done x. insertLess (\<lambda>a b. f a < f b) x done) acc xs)" for acc
    by (induction xs arbitrary: acc) (auto simp: insertLess_descending)
  from this [of "[]"] show ?thesis
    by (simp add: sortSlice_def sorted_map sorted_wrt_rev)
qed

text \<open>Two lists of the same elements, both ascending in a key without repetition, are equal.\<close>

lemma sorted_key_unique:
  fixes f :: "'a \<Rightarrow> 'k::linorder"
  assumes "sorted (map f xs)" and "sorted (map f ys)"
      and "mset xs = mset ys" and "distinct (map f xs)"
  shows "xs = ys"
proof -
  have m: "mset (map f xs) = mset (map f ys)"
    using assms(3) by simp
  then have d: "distinct (map f ys)"
    using assms(4) by (metis mset_eq_imp_distinct_iff)
  have s: "set (map f xs) = set (map f ys)"
    using m by (metis mset_eq_setD)
  have keys: "map f xs = map f ys"
    using assms(1,2,4) d s by (rule_tac sorted_distinct_set_unique) auto
  have "set xs = set ys"
    using assms(3) by (metis mset_eq_setD)
  then have "inj_on f (set xs \<union> set ys)"
    using assms(4) by (simp add: distinct_map)
  then show ?thesis
    using keys by (simp add: inj_on_map_eq_map)
qed

lemma GetWeatherHistory_ok:
  "scan env (historyScanInput env c s e) = \<lparr>Pages = pages, ScanError = None\<rparr> \<Longrightarrow>
   GetWeatherHistory env c s e =
     Inr (sortSlice (\<lambda>a b. Timestamp a < Timestamp b)
            (List.map_filter (unmarshalMap env) (concat pages)))"
  by (simp add: GetWeatherHistory_def ScanPages_collect Let_def)

lemma GetWeatherHistory_error:
  "ScanError (scan env (historyScanInput env c s e)) = Some err \<Longrightarrow>
   GetWeatherHistory env c s e = Inl (''failed to scan weather history: '' @ err)"
  by (simp add: GetWeatherHistory_def Let_def)

text \<open>
  C7, as amended. Whatever the order and the page partition in which a scan that ends
  without error delivers its items, \<open>GetWeatherHistory\<close> returns the records that
  decode, ascending by timestamp string. When those timestamps are pairwise distinct,
  any other error-free scan delivering the same multiset of items, in any order and
  partition, gives the same sequence.
\<close>

theorem GetWeatherHistory_sorted_any_order:
  assumes "scan env (historyScanInput env c s e) = \<lparr>Pages = pages, ScanError = None\<rparr>"
  shows "(\<exists>rs. GetWeatherHistory env c s e = Inr rs
            \<and> sorted (map Timestamp rs)
            \<and> mset rs = mset (List.map_filter (unmarshalMap env) (concat pages)))
       \<and> (scan env' (historyScanInput env' c' s' e') = \<lparr>Pages = pages', ScanError = None\<rparr>
            \<and> unmarshalMap env' = unmarshalMap env
            \<and> mset (concat pages') = mset (concat pages)
            \<and> distinct (map Timestamp (List.map_filter (unmarshalMap env) (concat pages)))
          \<longrightarrow> GetWeatherHistory env' c' s' e' = GetWeatherHistory env c s e)"
proof (intro conjI impI)
  show "\<exists>rs. GetWeatherHistory env c s e = Inr rs
          \<and> sorted (map Timestamp rs)
          \<and> mset rs = mset (List.map_filter (unmarshalMap env) (concat pages))"
    using assms by (simp add: GetWeatherHistory_ok sortSlice_sorted sortSlice_mset)
next
  let ?lt = "\<lambda>a b. Timestamp a < Timestamp b"
  let ?xs = "List.map_filter (unmarshalMap env) (concat pages)"
  let ?ys = "List.map_filter (unmarshalMap env) (concat pages')"
  assume a: "scan env' (historyScanInput env' c' s' e') = \<lparr>Pages = pages', ScanError = None\<rparr>
            \<and> unmarshalMap env' = unmarshalMap env
            \<and> mset (concat pages') = mset (concat pages)
            \<and> distinct (map Timestamp ?xs)"
  then have same: "mset ?ys = mset ?xs"
    by (simp add: mset_map_filter)
  have "sortSlice ?lt ?xs = sortSlice ?lt ?ys"
  proof (rule sorted_key_unique [where f = Timestamp])
    show "sorted (map Timestamp (sortSlice ?lt ?xs))" by (rule sortSlice_sorted)
    show "sorted (map Timestamp (sortSlice ?lt ?ys))" by (rule sortSlice_sorted)
    show "mset (sortSlice ?lt ?xs) = mset (sortSlice ?lt ?ys)"
      using same by (simp add: sortSlice_mset)
    have "mset (map Timestamp (sortSlice ?lt ?xs)) = mset (map Timestamp ?xs)"
      by (simp add: sortSlice_mset)
    then show "distinct (map Timestamp (sortSlice ?lt ?xs))"
      using a by (metis mset_eq_imp_distinct_iff)
  qed
  moreover have "GetWeatherHistory env' c' s' e' = Inr (sortSlice ?lt ?ys)"
    using a by (simp add: GetWeatherHistory_ok)
  moreover have "GetWeatherHistory env c s e = Inr (sortSlice ?lt ?xs)"
    using assms by (simp add: GetWeatherHistory_ok)
  ultimately show "GetWeatherHistory env' c' s' e' = GetWeatherHistory env c s e"
    by simp
qed

theorem GetWeatherHistory_sorted_any_order_witness:
  "scan (sampleHistoryEnv [[Some (sampleRecord ''Tokyo-1704070800'' ''2024-01-01T01:00:00Z'')],
                           [None, Some (sampleRecord ''Tokyo-1704067200'' ''2024-01-01T00:00:00Z'')]])
     (historyScanInput
        (sampleHistoryEnv [[Some (sampleRecord ''Tokyo-1704070800'' ''2024-01-01T01:00:00Z'')],
                           [None, Some (sampleRecord ''Tokyo-1704067200'' ''2024-01-01T00:00:00Z'')]])
        ''Tokyo'' 0 1)
     = \<lparr>Pages = [[Some (sampleRecord ''Tokyo-1704070800'' ''2024-01-01T01:00:00Z'')],
                  [None, Some (sampleRecord ''Tokyo-1704067200'' ''2024-01-01T00:00:00Z'')]],
        ScanError = None\<rparr>
   \<and> (\<exists>rs. GetWeatherHistory
              (sampleHistoryEnv [[Some (sampleRecord ''Tokyo-1704070800'' ''2024-01-01T01:00:00Z'')],
                                 [None, Some (sampleRecord ''Tokyo-1704067200'' ''2024-01-01T00:00:00Z'')]])
              ''Tokyo'' 0 1 = Inr rs
           \<and> sorted (map Timestamp rs)
           \<and> mset rs = {#sampleRecord ''Tokyo-1704067200'' ''2024-01-01T00:00:00Z'',
                         sampleRecord ''Tokyo-1704070800'' ''2024-01-01T01:00:00Z''#})
   \<and> GetWeatherHistory
         (sampleHistoryEnv [[Some (sampleRecord ''Tokyo-1704067200'' ''2024-01-01T00:00:00Z''), None,
                             Some (sampleRecord ''Tokyo-1704070800'' ''2024-01-01T01:00:00Z'')]])
         ''Tokyo'' 0 1
       = GetWeatherHistory
         (sampleHistoryEnv [[Some (sampleRecord ''Tokyo-1704070800'' ''2024-01-01T01:00:00Z'')],
                            [None, Some (sampleRecord ''Tokyo-1704067200'' ''2024-01-01T00:00:00Z'')]])
         ''Tokyo'' 0 1"
proof -
  let ?early = "sampleRecord ''Tokyo-1704067200'' ''2024-01-01T00:00:00Z''"
  let ?late = "sampleRecord ''Tokyo-1704070800'' ''2024-01-01T01:00:00Z''"
  let ?env = "sampleHistoryEnv [[Some ?late], [None, Some ?early]]"
  let ?env' = "sampleHistoryEnv [[Some ?early, None, Some ?late]]"
  have h: "scan ?env (historyScanInput ?env ''Tokyo'' 0 1)
             = \<lparr>Pages = [[Some ?late], [None, Some ?early]], ScanError = None\<rparr>"
    by (simp add: sampleHistoryEnv_def)
  have h': "scan ?env' (historyScanInput ?env' ''Tokyo'' 0 1)
             = \<lparr>Pages = [[Some ?early, None, Some ?late]], ScanError = None\<rparr>"
    by (simp add: sampleHistoryEnv_def)
  have u: "unmarshalMap ?env' = unmarshalMap ?env"
    by (simp add: sampleHistoryEnv_def)
  have d: "distinct (map Timestamp
             (List.map_filter (unmarshalMap ?env) (concat [[Some ?late], [None, Some ?early]])))"
    by (simp add: sampleHistoryEnv_def sampleRecord_def)
  have m: "mset (concat [[Some ?early, None, Some ?late]])
             = mset (concat [[Some ?late], [None, Some ?early]])"
    by simp
  have e: "mset (List.map_filter (unmarshalMap ?env) (concat [[Some ?late], [None, Some ?early]]))
             = {#?early, ?late#}"
    by (simp add: sampleHistoryEnv_def)
  from GetWeatherHistory_sorted_any_order
         [OF h, of ?env' "''Tokyo''" 0 1 "[[Some ?early, None, Some ?late]]"]
  show ?thesis using h h' u d m e by simp
qed

text \<open>
  C7 as stated fails: two records with the same timestamp string come back in the order
  the store delivered them, so two deliveries of the same records give two sequences.
\<close>

theorem GetWeatherHistory_tie_counterexample:
  "mset (concat [[Some (sampleRecord ''Tokyo-1704067200'' ''2024-01-01T00:00:00Z''),
                  Some (sampleRecord ''test-integration-20240101-000000'' ''2024-01-01T00:00:00Z'')]])
     = mset (concat [[Some (sampleRecord ''test-integration-20240101-000000'' ''2024-01-01T00:00:00Z'')],
                     [Some (sampleRecord ''Tokyo-1704067200'' ''2024-01-01T00:00:00Z'')]])
   \<and> GetWeatherHistory
       (sampleHistoryEnv [[Some (sampleRecord ''Tokyo-1704067200'' ''2024-01-01T00:00:00Z''),
                           Some (sampleRecord ''test-integration-20240101-000000'' ''2024-01-01T00:00:00Z'')]])
       ''Tokyo'' 0 1
     \<noteq> GetWeatherHistory
       (sampleHistoryEnv [[Some (sampleRecord ''test-integration-20240101-000000'' ''2024-01-01T00:00:00Z'')],
                          [Some (sampleRecord ''Tokyo-1704067200'' ''2024-01-01T00:00:00Z'')]])
       ''Tokyo'' 0 1"
  by (simp add: GetWeatherHistory_def sampleHistoryEnv_def historyScanInput_def collectPage_def
        sortSlice_def sampleRecord_def)

text \<open>
  C8. When the scan ends without error, \<open>GetWeatherHistory\<close> returns no error and
  exactly the records that decode, the items that fail to decode being dropped. In
  particular a scan of one malformed item and two valid ones, in any order and partition,
  returns the two valid records.
\<close>

theorem GetWeatherHistory_skips_malformed:
  assumes "scan env (historyScanInput env c s e) = \<lparr>Pages = pages, ScanError = None\<rparr>"
  shows "(\<exists>rs. GetWeatherHistory env c s e = Inr rs
            \<and> mset rs = mset (List.map_filter (unmarshalMap env) (concat pages)))
       \<and> (mset (concat pages) = {#bad, i1, i2#} \<and> unmarshalMap env bad = None
            \<and> unmarshalMap env i1 = Some r1 \<and> unmarshalMap env i2 = Some r2
          \<longrightarrow> (\<exists>rs. GetWeatherHistory env c s e = Inr rs \<and> mset rs = {#r1, r2#}))"
proof (intro conjI impI)
  show "\<exists>rs. GetWeatherHistory env c s e = Inr rs
          \<and> mset rs = mset (List.map_filter (unmarshalMap env) (concat pages))"
    using assms by (simp add: GetWeatherHistory_ok sortSlice_mset)
next
  assume a: "mset (concat pages) = {#bad, i1, i2#} \<and> unmarshalMap env bad = None
        \<and> unmarshalMap env i1 = Some r1 \<and> unmarshalMap env i2 = Some r2"
  then have "mset (List.map_filter (unmarshalMap env) (concat pages)) = {#r1, r2#}"
    by (simp add: mset_map_filter)
  then show "\<exists>rs. GetWeatherHistory env c s e = Inr rs \<and> mset rs = {#r1, r2#}"
    using assms by (simp add: GetWeatherHistory_ok sortSlice_mset)
qed

theorem GetWeatherHistory_skips_malformed_witness:
  "scan (sampleHistoryEnv [[Some (sampleRecord ''Tokyo-1704070800'' ''2024-01-01T01:00:00Z''), None],
                           [Some (sampleRecord ''Tokyo-1704067200'' ''2024-01-01T00:00:00Z'')]])
     (historyScanInput
        (sampleHistoryEnv [[Some (sampleRecord ''Tokyo-1704070800'' ''2024-01-01T01:00:00Z''), None],
                           [Some (sampleRecord ''Tokyo-1704067200'' ''2024-01-01T00:00:00Z'')]])
        ''Tokyo'' 0 1)
     = \<lparr>Pages = [[Some (sampleRecord ''Tokyo-1704070800'' ''2024-01-01T01:00:00Z''), None],
                  [Some (sampleRecord ''Tokyo-1704067200'' ''2024-01-01T00:00:00Z'')]],
        ScanError = None\<rparr>
   \<and> (\<exists>rs. GetWeatherHistory
              (sampleHistoryEnv [[Some (sampleRecord ''Tokyo-1704070800'' ''2024-01-01T01:00:00Z''), None],
                                 [Some (sampleRecord ''Tokyo-1704067200'' ''2024-01-01T00:00:00Z'')]])
              ''Tokyo'' 0 1 = Inr rs
           \<and> mset rs = {#sampleRecord ''Tokyo-1704070800'' ''2024-01-01T01:00:00Z'',
                         sampleRecord ''Tokyo-1704067200'' ''2024-01-01T00:00:00Z''#})"
proof -
  let ?early = "sampleRecord ''Tokyo-1704067200'' ''2024-01-01T00:00:00Z''"
  let ?late = "sampleRecord ''Tokyo-1704070800'' ''2024-01-01T01:00:00Z''"
  let ?env = "sampleHistoryEnv [[Some ?late, None], [Some ?early]]"
  have h: "scan ?env (historyScanInput ?env ''Tokyo'' 0 1)
             = \<lparr>Pages = [[Some ?late, None], [Some ?early]], ScanError = None\<rparr>"
    by (simp add: sampleHistoryEnv_def)
  have m: "mset (concat [[Some ?late, None], [Some ?early]]) = {#None, Some ?late, Some ?early#}"
    by simp
  have u: "unmarshalMap ?env None = None \<and> unmarshalMap ?env (Some ?late) = Some ?late
             \<and> unmarshalMap ?env (Some ?early) = Some ?early"
    by (simp add: sampleHistoryEnv_def)
  from GetWeatherHistory_skips_malformed [OF h, of None "Some ?late" "Some ?early" ?late ?early]
  show ?thesis using h m u by simp
qed

section \<open>Properties of the city sanitizer\<close>

lemma char_eq_iff_nat: "(c = d) = ((of_char c :: nat) = of_char d)"
  by simp

lemma inClass_cityClass:
  "inClass cityClass c \<Longrightarrow>
     (CHR ''a'' \<le> c \<and> c \<le> CHR ''z'') \<or> (CHR ''A'' \<le> c \<and> c \<le> CHR ''Z'')
     \<or> c \<in> {CHR 0x09, CHR 0x0A, CHR 0x0C, CHR 0x0D, CHR 0x20} \<or> c = CHR ''-''"
  apply (simp add: inClass_def cityClass_def)
  apply (auto simp: less_eq_char_def char_eq_iff_nat)
  done

lemma letter_inClass: "asciiLetter c \<Longrightarrow> inClass cityClass c"
  by (auto simp: asciiLetter_def inClass_def cityClass_def)

lemma letter_no_space_start:
  assumes "asciiLetter c" and "p \<in> set spaceRunes"
  shows "hd p \<noteq> c"
  using assms
  by (auto simp: asciiLetter_def spaceRunes_def less_eq_char_def)

lemma letter_no_space_end:
  assumes "asciiLetter c" and "p \<in> set spaceRunes"
  shows "last p \<noteq> c"
  using assms
  by (auto simp: asciiLetter_def spaceRunes_def less_eq_char_def)

lemma spaceRunes_nonempty: "p \<in> set spaceRunes \<Longrightarrow> p \<noteq> []"
  by (auto simp: spaceRunes_def)

lemma leadingSpace_letter: 
  assumes "asciiLetter c" shows "leadingSpace (c # cs) = 0"
proof -
  have "\<not> (length p \<le> length (c # cs) \<and> take (length p) (c # cs) = p)" if "p \<in> set spaceRunes" for p
  proof
    assume a: "length p \<le> length (c # cs) \<and> take (length p) (c # cs) = p"
    from that have "p \<noteq> []" by (rule spaceRunes_nonempty)
    then obtain x xs where p: "p = x # xs" by (cases p) auto
    with a have "x = c" by (metis hd_take length_greater_0_conv list.sel(1) list.discI)
    with letter_no_space_start [OF assms that] p show False by simp
  qed
  then have "find (\<lambda>p. length p \<le> length (c # cs) \<and> take (length p) (c # cs) = p) spaceRunes = None"
    by (simp add: find_None_iff)
  then show ?thesis by (simp add: leadingSpace_def)
qed

lemma trailingSpace_letter:
  assumes "s \<noteq> []" and "asciiLetter (last s)" shows "trailingSpace s = 0"
proof -
  have "\<not> (length p \<le> length s \<and> drop (length s - length p) s = p)" if "p \<in> set spaceRunes" for p
  proof
    assume a: "length p \<le> length s \<and> drop (length s - length p) s = p"
    from that have ne: "p \<noteq> []" by (rule spaceRunes_nonempty)
    then have "length s - length p < length s" using a assms(1) by (cases p) auto
    then have "last (drop (length s - length p) s) = last s" by (rule last_drop)
    with a have "last p = last s" by simp
    with letter_no_space_end [OF assms(2) that] show False by simp
  qed
  then have "find (\<lambda>p. length p \<le> length s \<and> drop (length s - length p) s = p) spaceRunes = None"
    by (simp add: find_None_iff)
  then show ?thesis by (simp add: trailingSpace_def)
qed

lemma TrimSpace_letters:
  assumes "s \<noteq> []" and "list_all asciiLetter s"
  shows "TrimSpace s = s"
proof -
  from assms obtain c cs where s: "s = c # cs" by (cases s) auto
  with assms(2) have "asciiLetter c" by simp
  then have "leadingSpace s = 0"
    using s by (simp add: leadingSpace_letter)
  then have "trimLeft s = s"
    by (subst trimLeft.simps) simp
  moreover have "asciiLetter (last s)"
    using assms by (simp add: list_all_iff)
  then have "trailingSpace s = 0"
    using assms(1) by (simp add: trailingSpace_letter)
  then have "trimRight s = s"
    by (subst trimRight.simps) simp
  ultimately show ?thesis by (simp add: TrimSpace_def)
qed

text \<open>
  C6. Every character of a sanitized city name is an ASCII letter, one of the whitespace
  characters tab, line feed, form feed, carriage return and space, or a hyphen, and the
  name has at most 50 characters. \<open>Tokyo123!\<close> becomes \<open>Tokyo\<close>, and an input of 60
  letters is cut to its first 50.
\<close>

theorem sanitizeCityName_safe:
  "(\<forall>ch \<in> set (sanitizeCityName city).
       (CHR ''a'' \<le> ch \<and> ch \<le> CHR ''z'') \<or> (CHR ''A'' \<le> ch \<and> ch \<le> CHR ''Z'')
       \<or> ch \<in> {CHR 0x09, CHR 0x0A, CHR 0x0C, CHR 0x0D, CHR 0x20} \<or> ch = CHR ''-'')
   \<and> length (sanitizeCityName city) \<le> 50
   \<and> sanitizeCityName ''Tokyo123!'' = ''Tokyo''
   \<and> (length city = 60
        \<and> (\<forall>ch \<in> set city. (CHR ''a'' \<le> ch \<and> ch \<le> CHR ''z'') \<or> (CHR ''A'' \<le> ch \<and> ch \<le> CHR ''Z''))
      \<longrightarrow> sanitizeCityName city = take 50 city)"
proof (intro conjI ballI impI)
  fix ch
  assume "ch \<in> set (sanitizeCityName city)"
  then have "ch \<in> set (filter (inClass cityClass) (TrimSpace city))"
    by (auto simp: sanitizeCityName_def Let_def split: if_splits dest: in_set_takeD)
  then have "inClass cityClass ch" by simp
  then show "(CHR ''a'' \<le> ch \<and> ch \<le> CHR ''z'') \<or> (CHR ''A'' \<le> ch \<and> ch \<le> CHR ''Z'')
       \<or> ch \<in> {CHR 0x09, CHR 0x0A, CHR 0x0C, CHR 0x0D, CHR 0x20} \<or> ch = CHR ''-''"
    by (rule inClass_cityClass)
next
  show "length (sanitizeCityName city) \<le> 50"
    by (simp add: sanitizeCityName_def Let_def)
next
  show "sanitizeCityName ''Tokyo123!'' = ''Tokyo''"
    by code_simp
next
  assume a: "length city = 60
        \<and> (\<forall>ch \<in> set city. (CHR ''a'' \<le> ch \<and> ch \<le> CHR ''z'') \<or> (CHR ''A'' \<le> ch \<and> ch \<le> CHR ''Z''))"
  then have l: "list_all asciiLetter city" by (simp add: list_all_iff asciiLetter_def)
  from a have ne: "city \<noteq> []" by auto
  have t: "TrimSpace city = city" using ne l by (rule TrimSpace_letters)
  have "filter (inClass cityClass) city = city"
    using l by (simp add: list_all_iff letter_inClass)
  with t a show "sanitizeCityName city = take 50 city"
    by (simp add: sanitizeCityName_def Let_def)
qed

theorem sanitizeCityName_safe_witness:
  "length (replicate 60 CHR ''a'') = 60
   \<and> sanitizeCityName (replicate 60 CHR ''a'') = replicate 50 CHR ''a''
   \<and> length (sanitizeCityName (replicate 60 CHR ''a'')) \<le> 50"
proof -
  have "length (replicate 60 CHR ''a'') = 60
        \<and> (\<forall>ch \<in> set (replicate 60 CHR ''a'').
              (CHR ''a'' \<le> ch \<and> ch \<le> CHR ''z'') \<or> (CHR ''A'' \<le> ch \<and> ch \<le> CHR ''Z''))"
    by simp
  with sanitizeCityName_safe [of "replicate 60 CHR ''a''"]
  show ?thesis by simp
qed

section \<open>Properties of the record mapper\<close>

lemma Unix_Add_hours: "Unix (Add now (k * Hour)) = Unix now + k * 3600"
  using div_mult_self1 [of "1000000000::int" now "k * 3600"]
  by (simp add: Unix_def Add_def Second_def Hour_def)

text \<open>
  C4. The record made from a reading at the instant \<open>now\<close> has the identifier
  \<open>city-unixSeconds(now)\<close>, a TTL of the Unix seconds of \<open>now\<close> plus 2592000, the
  reading's temperature, humidity, pressure, wind speed and country, and the description
  of the first condition when there is one. The reading of the repository's test maps to
  \<open>Tokyo-unixSeconds(now)\<close>, 25.5 and \<open>Clear sky\<close>.
\<close>

theorem ConvertToWeatherRecord_fields:
  "ID (ConvertToWeatherRecord fmt now response) = Name response @ ''-'' @ formatInt (Unix now)
   \<and> TTL (ConvertToWeatherRecord fmt now response) = Unix now + 2592000
   \<and> Temperature (ConvertToWeatherRecord fmt now response) = Temp (Main response)
   \<and> Humidity (ConvertToWeatherRecord fmt now response) = Main_Humidity (Main response)
   \<and> Pressure (ConvertToWeatherRecord fmt now response) = Main_Pressure (Main response)
   \<and> WindSpeed (ConvertToWeatherRecord fmt now response) = Speed (Wind response)
   \<and> Country (ConvertToWeatherRecord fmt now response) = Sys_Country (Sys response)
   \<and> (Weather response \<noteq> [] \<longrightarrow>
        Description (ConvertToWeatherRecord fmt now response)
          = Weather_Description (hd (Weather response)))
   \<and> ID (ConvertToWeatherRecord fmt now mockResponse) = ''Tokyo-'' @ formatInt (Unix now)
   \<and> Temperature (ConvertToWeatherRecord fmt now mockResponse) = 25.5
   \<and> Description (ConvertToWeatherRecord fmt now mockResponse) = ''Clear sky''
   \<and> TTL (ConvertToWeatherRecord fmt now mockResponse) = Unix now + 2592000"
  by (cases "Weather response")
     (simp_all add: ConvertToWeatherRecord_def Let_def Unix_Add_hours mockResponse_def)

theorem ConvertToWeatherRecord_fields_witness:
  "Weather mockResponse \<noteq> []
   \<and> ID (ConvertToWeatherRecord (\<lambda>t. formatInt (Unix t)) (1700000000 * Second) mockResponse)
       = ''Tokyo-1700000000''
   \<and> TTL (ConvertToWeatherRecord (\<lambda>t. formatInt (Unix t)) (1700000000 * Second) mockResponse)
       = 1702592000
   \<and> Description (ConvertToWeatherRecord (\<lambda>t. formatInt (Unix t)) (1700000000 * Second) mockResponse)
       = ''Clear sky''"
proof -
  have w: "Weather mockResponse \<noteq> []" by (simp add: mockResponse_def)
  have u: "Unix (1700000000 * Second) = 1700000000" by (simp add: Unix_def Second_def)
  have f: "formatInt 1700000000 = ''1700000000''" by code_simp
  from ConvertToWeatherRecord_fields
         [of "\<lambda>t. formatInt (Unix t)" "1700000000 * Second" mockResponse]
  show ?thesis using w u f by (simp add: mockResponse_def)
qed

section \<open>Properties of the period pattern\<close>

text \<open>What the derivative matcher accepts, construct by construct.\<close>

lemma fullMatch_Fail: "fullMatch Fail s = False"
  by (induction s) auto

lemma fullMatch_Eps: "fullMatch Eps s = (s = [])"
  by (cases s) (auto simp: fullMatch_Fail)

lemma fullMatch_Class: "fullMatch (Class cls) s = (\<exists>c. s = [c] \<and> inClass cls c)"
  by (cases s) (auto simp: fullMatch_Fail fullMatch_Eps)

lemma fullMatch_Alt: "fullMatch (Alt r1 r2) s = (fullMatch r1 s \<or> fullMatch r2 s)"
  by (induction s arbitrary: r1 r2) auto

lemma fullMatch_Seq:
  "fullMatch (Seq r1 r2) s = (\<exists>u v. s = u @ v \<and> fullMatch r1 u \<and> fullMatch r2 v)"
proof (induction s arbitrary: r1)
  case Nil
  show ?case by simp
next
  case (Cons c s)
  have split: "(\<exists>u v. c # s = u @ v \<and> fullMatch r1 u \<and> fullMatch r2 v)
      = ((nullable r1 \<and> fullMatch (deriv c r2) s)
          \<or> (\<exists>u v. s = u @ v \<and> fullMatch (deriv c r1) u \<and> fullMatch r2 v))"
    (is "?L = ?R")
  proof
    assume ?L
    then obtain u v where uv: "c # s = u @ v" "fullMatch r1 u" "fullMatch r2 v" by blast
    show ?R
    proof (cases u)
      case Nil
      with uv show ?thesis by auto
    next
      case (Cons a u')
      with uv have "a = c" "s = u' @ v" "fullMatch (deriv c r1) u'" by auto
      with uv(3) show ?thesis by blast
    qed
  next
    assume ?R
    then show ?L
    proof
      assume "nullable r1 \<and> fullMatch (deriv c r2) s"
      then have "c # s = [] @ (c # s) \<and> fullMatch r1 [] \<and> fullMatch r2 (c # s)" by simp
      then show ?L by blast
    next
      assume "\<exists>u v. s = u @ v \<and> fullMatch (deriv c r1) u \<and> fullMatch r2 v"
      then obtain u v where "s = u @ v" "fullMatch (deriv c r1) u" "fullMatch r2 v" by blast
      then have "c # s = (c # u) @ v \<and> fullMatch r1 (c # u) \<and> fullMatch r2 v" by simp
      then show ?L by blast
    qed
  qed
  show ?case
    by (auto simp: fullMatch_Alt Cons.IH split)
qed

lemma fullMatch_Lit: "fullMatch (Lit w) s = (s = w)"
proof (induction w arbitrary: s)
  case Nil
  show ?case by (simp add: Lit_def fullMatch_Eps)
next
  case (Cons c w)
  have "Lit (c # w) = Seq (Class [(c, c)]) (Lit w)" by (simp add: Lit_def)
  then show ?case
    by (auto simp: fullMatch_Seq fullMatch_Class Cons.IH inClass_def)
qed

lemma fullMatch_two_classes:
  "fullMatch (Seq (Class A) (Class B)) s = (\<exists>a b. s = [a, b] \<and> inClass A a \<and> inClass B b)"
proof
  assume "\<exists>a b. s = [a, b] \<and> inClass A a \<and> inClass B b"
  then obtain a b where "s = [a] @ [b]" "inClass A a" "inClass B b" by auto
  then show "fullMatch (Seq (Class A) (Class B)) s"
    unfolding fullMatch_Seq fullMatch_Class by blast
qed (auto simp: fullMatch_Seq fullMatch_Class)

lemma fullMatch_char_two_classes:
  "fullMatch (Seq (Lit [x]) (Seq (Class A) (Class B))) s
     = (\<exists>b c. s = [x, b, c] \<and> inClass A b \<and> inClass B c)"
  by (auto simp: fullMatch_Seq [of "Lit [x]"] fullMatch_Lit fullMatch_two_classes)

lemma isValidPeriod_iff:
  "isValidPeriod p =
     (p = ''6h'' \<or> p = ''24h'' \<or> p = ''1d''
      \<or> (\<exists>a. p = [a] \<and> CHR ''1'' \<le> a \<and> a \<le> CHR ''9'')
      \<or> (\<exists>a b. p = [a, b] \<and> CHR ''1'' \<le> a \<and> a \<le> CHR ''9'' \<and> CHR ''0'' \<le> b \<and> b \<le> CHR ''9'')
      \<or> (\<exists>b c. p = [CHR ''1'', b, c] \<and> CHR ''0'' \<le> b \<and> b \<le> CHR ''6''
              \<and> CHR ''0'' \<le> c \<and> c \<le> CHR ''8''))"
  unfolding isValidPeriod_def periodPattern_def
  by (simp add: fullMatch_Alt fullMatch_Lit fullMatch_Class fullMatch_two_classes
        fullMatch_char_two_classes inClass_def)

lemma int_of_char: "(of_char c :: int) = int (of_char c)"
  by (simp add: of_nat_of_char)

lemma digit_facts:
  assumes "CHR ''0'' \<le> c" and "c \<le> CHR ''9''"
  shows "isDigit c" and "0 \<le> digitVal c" and "digitVal c \<le> 9"
    and "c \<noteq> CHR ''-''" and "c \<noteq> CHR ''+''" and "c \<noteq> CHR ''h''" and "c \<noteq> CHR ''d''"
  using assms unfolding isDigit_def digitVal_def less_eq_char_def int_of_char by auto

lemma digitVal_bounds:
  "CHR ''1'' \<le> c \<Longrightarrow> 1 \<le> digitVal c"
  "c \<le> CHR ''6'' \<Longrightarrow> digitVal c \<le> 6"
  "c \<le> CHR ''8'' \<Longrightarrow> digitVal c \<le> 8"
  "CHR ''1'' \<le> c \<Longrightarrow> CHR ''0'' \<le> c"
  "c \<le> CHR ''6'' \<Longrightarrow> c \<le> CHR ''9''"
  "c \<le> CHR ''8'' \<Longrightarrow> c \<le> CHR ''9''"
  unfolding digitVal_def less_eq_char_def int_of_char by auto

lemma Atoi_digits:
  assumes "isDigit c" and "c \<noteq> CHR ''-''" and "c \<noteq> CHR ''+''"
      and "parseDigits (c # cs) 0 = Some n" and "0 \<le> n" and "n \<le> 999"
  shows "Atoi (c # cs) = Some n"
  using assms by (simp add: Atoi_def)

lemma periodHours_one:
  assumes "CHR ''1'' \<le> a" and "a \<le> CHR ''9''"
  shows "periodHours [a] = Some (digitVal a)" and "1 \<le> digitVal a" and "digitVal a \<le> 9"
proof -
  from assms(1) have lo: "CHR ''0'' \<le> a" by (rule digitVal_bounds)
  note d = digit_facts [OF lo assms(2)]
  show one: "1 \<le> digitVal a" using assms(1) by (rule digitVal_bounds)
  show nine: "digitVal a \<le> 9" by (rule d)
  have "Atoi [a] = Some (digitVal a)"
    using d one nine by (intro Atoi_digits) simp_all
  then show "periodHours [a] = Some (digitVal a)"
    using one nine by (simp add: periodHours_def)
qed

lemma periodHours_two:
  assumes "CHR ''1'' \<le> a" and "a \<le> CHR ''9''" and "CHR ''0'' \<le> b" and "b \<le> CHR ''9''"
  shows "\<exists>n. periodHours [a, b] = Some n \<and> 1 \<le> n \<and> n \<le> 168"
proof -
  from assms(1) have lo: "CHR ''0'' \<le> a" by (rule digitVal_bounds)
  note da = digit_facts [OF lo assms(2)]
  note db = digit_facts [OF assms(3,4)]
  have one: "1 \<le> digitVal a" using assms(1) by (rule digitVal_bounds)
  let ?n = "digitVal a * 10 + digitVal b"
  have range: "10 \<le> ?n" "?n \<le> 99" using one da(3) db(2,3) by simp_all
  have "Atoi [a, b] = Some ?n"
    using da db range by (intro Atoi_digits) simp_all
  then have "periodHours [a, b] = Some ?n"
    using range db(6,7) by (simp add: periodHours_def)
  then show ?thesis using range by simp
qed

lemma periodHours_three:
  assumes "CHR ''0'' \<le> b" and "b \<le> CHR ''6''" and "CHR ''0'' \<le> c" and "c \<le> CHR ''8''"
  shows "\<exists>n. periodHours [CHR ''1'', b, c] = Some n \<and> 1 \<le> n \<and> n \<le> 168"
proof -
  from assms(2) have hb: "b \<le> CHR ''9''" by (rule digitVal_bounds)
  from assms(4) have hc: "c \<le> CHR ''9''" by (rule digitVal_bounds)
  note db = digit_facts [OF assms(1) hb]
  note dc = digit_facts [OF assms(3) hc]
  have b6: "digitVal b \<le> 6" using assms(2) by (rule digitVal_bounds)
  have c8: "digitVal c \<le> 8" using assms(4) by (rule digitVal_bounds)
  have one: "isDigit CHR ''1''" "digitVal CHR ''1'' = 1"
    by (simp_all add: isDigit_def digitVal_def)
  let ?n = "(10 + digitVal b) * 10 + digitVal c"
  have range: "100 \<le> ?n" "?n \<le> 168" using db(2) dc(2) b6 c8 by simp_all
  have "Atoi [CHR ''1'', b, c] = Some ?n"
    using one db dc range by (intro Atoi_digits) simp_all
  then have "periodHours [CHR ''1'', b, c] = Some ?n"
    using range by (simp add: periodHours_def)
  then show ?thesis using range by simp
qed

lemma periodHours_of_valid:
  assumes "isValidPeriod p"
  shows "\<exists>n. periodHours p = Some n \<and> 1 \<le> n \<and> n \<le> 168"
  using assms unfolding isValidPeriod_iff
proof (elim disjE exE conjE)
  assume "p = ''6h''"
  then show ?thesis by (simp add: periodHours_def)
next
  assume "p = ''24h''"
  then show ?thesis by (simp add: periodHours_def)
next
  assume "p = ''1d''"
  then show ?thesis by (simp add: periodHours_def)
next
  fix a assume "p = [a]" "CHR ''1'' \<le> a" "a \<le> CHR ''9''"
  then show ?thesis using periodHours_one [of a] by simp
next
  fix a b assume "p = [a, b]" "CHR ''1'' \<le> a" "a \<le> CHR ''9''" "CHR ''0'' \<le> b" "b \<le> CHR ''9''"
  then show ?thesis using periodHours_two [of a b] by simp
next
  fix b c assume "p = [CHR ''1'', b, c]" "CHR ''0'' \<le> b" "b \<le> CHR ''6''" "CHR ''0'' \<le> c" "c \<le> CHR ''8''"
  then show ?thesis using periodHours_three [of b c] by simp
qed

text \<open>
  X2. Of the integers from 1 to 168 in decimal, the pattern accepts all but those of three
  digits that end in 9: 109, 119, 129, 139, 149 and 159.
\<close>

theorem isValidPeriod_hours_1_to_168:
  "list_all (\<lambda>n. isValidPeriod (formatInt n) = (\<not> (100 \<le> n \<and> n mod 10 = 9))) [1..168]"
  by code_simp

section \<open>Properties of the history handler\<close>

lemma isValidPeriod_tokens:
  "\<not> isValidPeriod ''0''" "\<not> isValidPeriod ''169''" "\<not> isValidPeriod ''abc''"
  "\<not> isValidPeriod ''-5''" "\<not> isValidPeriod ''109''" "isValidPeriod ''6''" "isValidPeriod ''6h''"
  by code_simp+

lemma periodHours_6: "periodHours ''6'' = Some 6"
  by code_simp

lemma periodHours_109: "periodHours ''109'' = Some 109"
  by code_simp

lemma History_HandleRequest_GET:
  assumes "HTTPMethod request = ''GET''"
      and "lookup (Headers request) ''X-API-Key'' \<noteq> [] \<or> lookup (Headers request) ''x-api-key'' \<noteq> []"
  shows "History_HandleRequest h request =
     (if \<not> isValidPeriod (requestPeriod request) then
        \<lparr>StatusCode = 400, Proxy_Headers = corsHeaders, Body = ErrorBody ''Invalid period parameter''\<rparr>
      else
        (case periodHours (requestPeriod request) of
           None \<Rightarrow>
             \<lparr>StatusCode = 400, Proxy_Headers = corsHeaders,
              Body = ErrorBody periodHelpMessage\<rparr>
         | Some hours \<Rightarrow>
             (case GetWeatherHistory h (requestCity h request)
                     (Add (timeNow h) (- hours * Hour)) (timeNow h) of
                Inl err \<Rightarrow>
                  \<lparr>StatusCode = 500, Proxy_Headers = corsHeaders,
                   Body = ErrorBody ''Failed to retrieve weather history''\<rparr>
              | Inr records \<Rightarrow>
                  if \<not> list_all (jsonEncodable h) records then
                    \<lparr>StatusCode = 500, Proxy_Headers = corsHeaders,
                     Body = ErrorBody ''Failed to create response''\<rparr>
                  else
                    \<lparr>StatusCode = 200, Proxy_Headers = corsHeaders,
                     Body = HistoryBody
                       \<lparr>History_StatusCode = 200,
                        History_Message = ''Weather history retrieved successfully'',
                        Data = records,
                        Count = int (length records),
                        Period = requestPeriod request,
                        StartTime = formatRFC3339 h (Add (timeNow h) (- hours * Hour)),
                        EndTime = formatRFC3339 h (timeNow h)\<rparr>\<rparr>)))"
  using assms
  by (auto simp: History_HandleRequest_def Let_def split: option.splits sum.splits)

text \<open>
  C2, as amended. On a GET request that carries the API key, each of the periods \<open>0\<close>,
  \<open>169\<close>, \<open>abc\<close> and \<open>-5\<close> is answered with status 400. The period \<open>6\<close> is a number
  of hours between 1 and 168: it is accepted, the window is the last six hours, and the
  status is 200 or 500 as the query and the encoding of its result go.
\<close>

theorem History_HandleRequest_invalid_tokens:
  assumes "HTTPMethod request = ''GET''"
      and "lookup (Headers request) ''X-API-Key'' \<noteq> [] \<or> lookup (Headers request) ''x-api-key'' \<noteq> []"
  shows "(lookup (QueryStringParameters request) ''period'' \<in> {''0'', ''169'', ''abc'', ''-5''}
           \<longrightarrow> History_HandleRequest h request
                 = \<lparr>StatusCode = 400, Proxy_Headers = corsHeaders,
                    Body = ErrorBody ''Invalid period parameter''\<rparr>)
       \<and> (lookup (QueryStringParameters request) ''period'' = ''6''
           \<longrightarrow> StatusCode (History_HandleRequest h request) \<noteq> 400
               \<and> StatusCode (History_HandleRequest h request)
                 = (case GetWeatherHistory h (requestCity h request)
                           (Add (timeNow h) (- 6 * Hour)) (timeNow h) of
                      Inl err \<Rightarrow> 500
                    | Inr records \<Rightarrow> if list_all (jsonEncodable h) records then 200 else 500))"
proof (intro conjI impI)
  assume "lookup (QueryStringParameters request) ''period'' \<in> {''0'', ''169'', ''abc'', ''-5''}"
  then have "\<not> isValidPeriod (requestPeriod request)"
    by (auto simp: requestPeriod_def isValidPeriod_tokens)
  then show "History_HandleRequest h request
                 = \<lparr>StatusCode = 400, Proxy_Headers = corsHeaders,
                    Body = ErrorBody ''Invalid period parameter''\<rparr>"
    by (simp add: History_HandleRequest_GET [OF assms])
next
  assume six: "lookup (QueryStringParameters request) ''period'' = ''6''"
  then have p: "requestPeriod request = ''6''"
    by (simp add: requestPeriod_def)
  show "StatusCode (History_HandleRequest h request)
                 = (case GetWeatherHistory h (requestCity h request)
                           (Add (timeNow h) (- 6 * Hour)) (timeNow h) of
                      Inl err \<Rightarrow> 500
                    | Inr records \<Rightarrow> if list_all (jsonEncodable h) records then 200 else 500)"
    by (simp add: History_HandleRequest_GET [OF assms] p isValidPeriod_tokens periodHours_6
          split: sum.splits)
  then show "StatusCode (History_HandleRequest h request) \<noteq> 400"
    by (simp split: sum.splits)
qed

theorem History_HandleRequest_invalid_tokens_witness:
  "HTTPMethod (sampleRequest ''X-API-Key'' ''169'') = ''GET''
   \<and> lookup (QueryStringParameters (sampleRequest ''X-API-Key'' ''169'')) ''period'' = ''169''
   \<and> StatusCode (History_HandleRequest (sampleHistoryEnv []) (sampleRequest ''X-API-Key'' ''169'')) = 400
   \<and> lookup (QueryStringParameters (sampleRequest ''X-API-Key'' ''6'')) ''period'' = ''6''
   \<and> StatusCode (History_HandleRequest (sampleHistoryEnv []) (sampleRequest ''X-API-Key'' ''6'')) \<noteq> 400"
proof -
  let ?bad = "sampleRequest ''X-API-Key'' ''169''"
  let ?six = "sampleRequest ''X-API-Key'' ''6''"
  have m: "HTTPMethod ?bad = ''GET''" "HTTPMethod ?six = ''GET''"
    by (simp_all add: sampleRequest_def)
  have k: "lookup (Headers ?bad) ''X-API-Key'' \<noteq> [] \<or> lookup (Headers ?bad) ''x-api-key'' \<noteq> []"
          "lookup (Headers ?six) ''X-API-Key'' \<noteq> [] \<or> lookup (Headers ?six) ''x-api-key'' \<noteq> []"
    by (simp_all add: sampleRequest_def lookup_def)
  have p: "lookup (QueryStringParameters ?bad) ''period'' = ''169''"
          "lookup (QueryStringParameters ?six) ''period'' = ''6''"
    by (simp_all add: sampleRequest_def lookup_def)
  from History_HandleRequest_invalid_tokens [OF m(1) k(1), of "sampleHistoryEnv []"]
       History_HandleRequest_invalid_tokens [OF m(2) k(2), of "sampleHistoryEnv []"]
  show ?thesis using m p by simp
qed

text \<open>C2 as stated fails at the period \<open>6\<close>, which the handler answers with status 200.\<close>

theorem History_HandleRequest_six_counterexample:
  "StatusCode (History_HandleRequest (sampleHistoryEnv []) (sampleRequest ''X-API-Key'' ''6'')) = 200"
  by code_simp

text \<open>
  C10. On a GET request that carries the API key and a period the handler accepts, a scan
  that ends without error and delivers no record that decodes (in particular no item at
  all) is answered with status 200, a count of 0 and no data.
\<close>

theorem History_HandleRequest_empty_window:
  assumes "HTTPMethod request = ''GET''"
      and "lookup (Headers request) ''X-API-Key'' \<noteq> [] \<or> lookup (Headers request) ''x-api-key'' \<noteq> []"
      and "isValidPeriod (requestPeriod request)"
      and "periodHours (requestPeriod request) = Some hours"
      and "scan h (historyScanInput h (requestCity h request)
                     (Add (timeNow h) (- hours * Hour)) (timeNow h))
             = \<lparr>Pages = pages, ScanError = None\<rparr>"
      and "List.map_filter (unmarshalMap h) (concat pages) = []"
  shows "StatusCode (History_HandleRequest h request) = 200
       \<and> (\<exists>r. Body (History_HandleRequest h request) = HistoryBody r
                \<and> Count r = 0 \<and> Data r = [])"
proof -
  have "GetWeatherHistory h (requestCity h request) (Add (timeNow h) (- hours * Hour)) (timeNow h)
          = Inr []"
    using assms(5,6) by (simp add: GetWeatherHistory_ok sortSlice_def)
  then show ?thesis
    using assms(3,4) by (simp add: History_HandleRequest_GET [OF assms(1,2)])
qed

theorem History_HandleRequest_empty_window_witness:
  "HTTPMethod (sampleRequest ''x-api-key'' ''24h'') = ''GET''
   \<and> isValidPeriod (requestPeriod (sampleRequest ''x-api-key'' ''24h''))
   \<and> periodHours (requestPeriod (sampleRequest ''x-api-key'' ''24h'')) = Some 24
   \<and> StatusCode (History_HandleRequest (sampleHistoryEnv [[]]) (sampleRequest ''x-api-key'' ''24h'')) = 200
   \<and> (\<exists>r. Body (History_HandleRequest (sampleHistoryEnv [[]]) (sampleRequest ''x-api-key'' ''24h''))
              = HistoryBody r
            \<and> Count r = 0 \<and> Data r = [])"
proof -
  let ?h = "sampleHistoryEnv [[]]"
  let ?rq = "sampleRequest ''x-api-key'' ''24h''"
  have m: "HTTPMethod ?rq = ''GET''" by (simp add: sampleRequest_def)
  have k: "lookup (Headers ?rq) ''X-API-Key'' \<noteq> [] \<or> lookup (Headers ?rq) ''x-api-key'' \<noteq> []"
    by (simp add: sampleRequest_def lookup_def)
  have p: "requestPeriod ?rq = ''24h''" by (simp add: sampleRequest_def requestPeriod_def lookup_def)
  have v: "isValidPeriod (requestPeriod ?rq)" unfolding p by code_simp
  have n: "periodHours (requestPeriod ?rq) = Some 24" unfolding p by code_simp
  have s: "scan ?h (historyScanInput ?h (requestCity ?h ?rq) (Add (timeNow ?h) (- 24 * Hour)) (timeNow ?h))
             = \<lparr>Pages = [[]], ScanError = None\<rparr>"
    by (simp add: sampleHistoryEnv_def)
  have e: "List.map_filter (unmarshalMap ?h) (concat [[]]) = []"
    by (simp add: sampleHistoryEnv_def)
  from History_HandleRequest_empty_window [OF m k v n s e]
  show ?thesis using m v n by simp
qed

text \<open>
  C1 fails on the code at the period \<open>109\<close>: the pattern's last alternative ends with
  the class \<^verbatim>\<open>[0-8]\<close>, so the handler answers 400 \<open>Invalid period parameter\<close>,
  although the \<^verbatim>\<open>switch\<close> behind the pattern would resolve \<open>109\<close> to 109 hours.
\<close>

theorem History_HandleRequest_rejects_109:
  assumes "HTTPMethod request = ''GET''"
      and "lookup (Headers request) ''X-API-Key'' \<noteq> [] \<or> lookup (Headers request) ''x-api-key'' \<noteq> []"
      and "lookup (QueryStringParameters request) ''period'' = ''109''"
  shows "History_HandleRequest h request
           = \<lparr>StatusCode = 400, Proxy_Headers = corsHeaders,
              Body = ErrorBody ''Invalid period parameter''\<rparr>
       \<and> periodHours ''109'' = Some 109"
proof -
  have "requestPeriod request = ''109''"
    using assms(3) by (simp add: requestPeriod_def)
  then show ?thesis
    by (simp add: History_HandleRequest_GET [OF assms(1,2)] isValidPeriod_tokens periodHours_109)
qed

theorem History_HandleRequest_rejects_109_witness:
  "HTTPMethod (sampleRequest ''X-API-Key'' ''109'') = ''GET''
   \<and> lookup (QueryStringParameters (sampleRequest ''X-API-Key'' ''109'')) ''period'' = ''109''
   \<and> StatusCode (History_HandleRequest (sampleHistoryEnv []) (sampleRequest ''X-API-Key'' ''109'')) = 400"
proof -
  let ?rq = "sampleRequest ''X-API-Key'' ''109''"
  have m: "HTTPMethod ?rq = ''GET''" by (simp add: sampleRequest_def)
  have k: "lookup (Headers ?rq) ''X-API-Key'' \<noteq> [] \<or> lookup (Headers ?rq) ''x-api-key'' \<noteq> []"
    by (simp add: sampleRequest_def lookup_def)
  have p: "lookup (QueryStringParameters ?rq) ''period'' = ''109''"
    by (simp add: sampleRequest_def lookup_def)
  from History_HandleRequest_rejects_109 [OF m k p, of "sampleHistoryEnv []"]
  show ?thesis using m p by simp
qed

text \<open>
  C5 fails on the code for a request that carries the key under another spelling of the
  header name than the two the handler looks up, such as \<open>X-Api-Key\<close>: the handler
  answers 401.
\<close>

theorem History_HandleRequest_rejects_mixed_case_header:
  assumes "HTTPMethod request = ''GET''"
      and "Headers request ''X-Api-Key'' = Some key"
      and "Headers request ''X-API-Key'' = None"
      and "Headers request ''x-api-key'' = None"
  shows "History_HandleRequest h request
           = \<lparr>StatusCode = 401, Proxy_Headers = corsHeaders, Body = ErrorBody ''API key required''\<rparr>"
  using assms by (simp add: History_HandleRequest_def lookup_def)

theorem History_HandleRequest_rejects_mixed_case_header_witness:
  "HTTPMethod (sampleRequest ''X-Api-Key'' ''6h'') = ''GET''
   \<and> Headers (sampleRequest ''X-Api-Key'' ''6h'') ''X-Api-Key'' = Some ''secret''
   \<and> StatusCode (History_HandleRequest (sampleHistoryEnv []) (sampleRequest ''X-Api-Key'' ''6h'')) = 401"
proof -
  let ?rq = "sampleRequest ''X-Api-Key'' ''6h''"
  have m: "HTTPMethod ?rq = ''GET''" by (simp add: sampleRequest_def)
  have k: "Headers ?rq ''X-Api-Key'' = Some ''secret''" by (simp add: sampleRequest_def)
  have n: "Headers ?rq ''X-API-Key'' = None" "Headers ?rq ''x-api-key'' = None"
    by (simp_all add: sampleRequest_def)
  from History_HandleRequest_rejects_mixed_case_header [OF m k n, of "sampleHistoryEnv []"]
  show ?thesis using m k by simp
qed

text \<open>
  X1. Every period that the pattern accepts is resolved by the \<^verbatim>\<open>switch\<close> to a number
  of hours between 1 and 168, so the second 400 response of the handler, the \<^verbatim>\<open>else\<close>
  of the default branch, is never produced.
\<close>

theorem History_HandleRequest_no_second_400:
  "(isValidPeriod p \<longrightarrow> (\<exists>n. periodHours p = Some n \<and> 1 \<le> n \<and> n \<le> 168))
   \<and> Body (History_HandleRequest h request) \<noteq> ErrorBody periodHelpMessage"
proof (intro conjI impI)
  assume "isValidPeriod p"
  then show "\<exists>n. periodHours p = Some n \<and> 1 \<le> n \<and> n \<le> 168"
    by (rule periodHours_of_valid)
next
  have other: "''Method not allowed'' \<noteq> periodHelpMessage"
      "''API key required'' \<noteq> periodHelpMessage"
      "''Invalid period parameter'' \<noteq> periodHelpMessage"
      "''Failed to retrieve weather history'' \<noteq> periodHelpMessage"
      "''Failed to create response'' \<noteq> periodHelpMessage"
    by (simp_all add: periodHelpMessage_def)
  show "Body (History_HandleRequest h request) \<noteq> ErrorBody periodHelpMessage"
  proof (cases "isValidPeriod (requestPeriod request)")
    case True
    from periodHours_of_valid [OF True]
    obtain n where "periodHours (requestPeriod request) = Some n" by blast
    then show ?thesis
      using True other
      by (simp add: History_HandleRequest_def Let_def split: sum.splits)
  next
    case False
    then show ?thesis
      using other by (simp add: History_HandleRequest_def Let_def)
  qed
qed

theorem History_HandleRequest_no_second_400_witness:
  "isValidPeriod ''42'' \<and> periodHours ''42'' = Some 42
   \<and> Body (History_HandleRequest (sampleHistoryEnv []) (sampleRequest ''X-API-Key'' ''42''))
       \<noteq> ErrorBody periodHelpMessage"
proof -
  have v: "isValidPeriod ''42''" by code_simp
  have n: "periodHours ''42'' = Some 42" by code_simp
  from History_HandleRequest_no_second_400
         [of "''42''" "sampleHistoryEnv []" "sampleRequest ''X-API-Key'' ''42''"]
  show ?thesis using v n by simp
qed

text \<open>
  X3. A request with the method OPTIONS is answered with status 200, the CORS headers and
  an empty body, whatever its headers and parameters.
\<close>

theorem History_HandleRequest_OPTIONS:
  assumes "HTTPMethod request = ''OPTIONS''"
  shows "History_HandleRequest h request
           = \<lparr>StatusCode = 200, Proxy_Headers = corsHeaders, Body = EmptyBody\<rparr>"
  using assms by (simp add: History_HandleRequest_def)

theorem History_HandleRequest_OPTIONS_witness:
  "HTTPMethod ((sampleRequest ''none'' ''abc'')\<lparr>HTTPMethod := ''OPTIONS''\<rparr>) = ''OPTIONS''
   \<and> History_HandleRequest (sampleHistoryEnv []) ((sampleRequest ''none'' ''abc'')\<lparr>HTTPMethod := ''OPTIONS''\<rparr>)
       = \<lparr>StatusCode = 200, Proxy_Headers = corsHeaders, Body = EmptyBody\<rparr>"
proof -
  have m: "HTTPMethod ((sampleRequest ''none'' ''abc'')\<lparr>HTTPMethod := ''OPTIONS''\<rparr>) = ''OPTIONS''"
    by simp
  from History_HandleRequest_OPTIONS [OF m, of "sampleHistoryEnv []"]
  show ?thesis using m by simp
qed

text \<open>
  X4. A request with a method other than OPTIONS and GET, such as POST, is answered with
  status 405.
\<close>

theorem History_HandleRequest_other_method:
  assumes "HTTPMethod request \<noteq> ''OPTIONS''" and "HTTPMethod request \<noteq> ''GET''"
  shows "History_HandleRequest h request
           = \<lparr>StatusCode = 405, Proxy_Headers = corsHeaders, Body = ErrorBody ''Method not allowed''\<rparr>"
  using assms by (simp add: History_HandleRequest_def)

theorem History_HandleRequest_other_method_witness:
  "HTTPMethod ((sampleRequest ''X-API-Key'' ''6h'')\<lparr>HTTPMethod := ''POST''\<rparr>) \<noteq> ''OPTIONS''
   \<and> HTTPMethod ((sampleRequest ''X-API-Key'' ''6h'')\<lparr>HTTPMethod := ''POST''\<rparr>) \<noteq> ''GET''
   \<and> StatusCode (History_HandleRequest (sampleHistoryEnv [])
                    ((sampleRequest ''X-API-Key'' ''6h'')\<lparr>HTTPMethod := ''POST''\<rparr>)) = 405"
proof -
  let ?rq = "(sampleRequest ''X-API-Key'' ''6h'')\<lparr>HTTPMethod := ''POST''\<rparr>"
  have m: "HTTPMethod ?rq \<noteq> ''OPTIONS''" "HTTPMethod ?rq \<noteq> ''GET''" by simp_all
  from History_HandleRequest_other_method [OF m, of "sampleHistoryEnv []"]
  show ?thesis using m by simp
qed

text \<open>
  X5. A GET request with no value under either of the header names the handler looks up
  is answered with status 401, whatever its period and city: neither is looked at before.
\<close>

theorem History_HandleRequest_missing_key:
  assumes "HTTPMethod request = ''GET''"
      and "lookup (Headers request) ''X-API-Key'' = []"
      and "lookup (Headers request) ''x-api-key'' = []"
  shows "History_HandleRequest h request
           = \<lparr>StatusCode = 401, Proxy_Headers = corsHeaders, Body = ErrorBody ''API key required''\<rparr>"
  using assms by (simp add: History_HandleRequest_def)

theorem History_HandleRequest_missing_key_witness:
  "HTTPMethod (sampleRequest ''Accept'' ''abc'') = ''GET''
   \<and> lookup (Headers (sampleRequest ''Accept'' ''abc'')) ''X-API-Key'' = []
   \<and> lookup (Headers (sampleRequest ''Accept'' ''abc'')) ''x-api-key'' = []
   \<and> \<not> isValidPeriod (requestPeriod (sampleRequest ''Accept'' ''abc''))
   \<and> StatusCode (History_HandleRequest (sampleHistoryEnv []) (sampleRequest ''Accept'' ''abc'')) = 401"
proof -
  let ?rq = "sampleRequest ''Accept'' ''abc''"
  have m: "HTTPMethod ?rq = ''GET''" by (simp add: sampleRequest_def)
  have k: "lookup (Headers ?rq) ''X-API-Key'' = []" "lookup (Headers ?rq) ''x-api-key'' = []"
    by (simp_all add: sampleRequest_def lookup_def)
  have p: "requestPeriod ?rq = ''abc''" by (simp add: sampleRequest_def requestPeriod_def lookup_def)
  have v: "\<not> isValidPeriod (requestPeriod ?rq)" unfolding p by code_simp
  from History_HandleRequest_missing_key [OF m k, of "sampleHistoryEnv []"]
  show ?thesis using m k v by simp
qed

text \<open>
  X6. On a GET request that carries the API key and a period the pattern accepts, the
  window ends at the clock reading and starts that many hours before it: 6 hours for
  \<open>6h\<close>, 24 for \<open>24h\<close> and \<open>1d\<close>. A failed query is answered with status 500; otherwise
  the response carries the records, their count, the period and the two instants.
\<close>

theorem History_HandleRequest_window:
  assumes "HTTPMethod request = ''GET''"
      and "lookup (Headers request) ''X-API-Key'' \<noteq> [] \<or> lookup (Headers request) ''x-api-key'' \<noteq> []"
      and "isValidPeriod (requestPeriod request)"
  shows "\<exists>hours. periodHours (requestPeriod request) = Some hours \<and> 1 \<le> hours \<and> hours \<le> 168
          \<and> (requestPeriod request = ''6h'' \<longrightarrow> hours = 6)
          \<and> (requestPeriod request = ''24h'' \<or> requestPeriod request = ''1d'' \<longrightarrow> hours = 24)
          \<and> (case GetWeatherHistory h (requestCity h request)
                     (Add (timeNow h) (- hours * Hour)) (timeNow h) of
                Inl err \<Rightarrow>
                  History_HandleRequest h request
                    = \<lparr>StatusCode = 500, Proxy_Headers = corsHeaders,
                       Body = ErrorBody ''Failed to retrieve weather history''\<rparr>
              | Inr records \<Rightarrow>
                  list_all (jsonEncodable h) records \<longrightarrow>
                  History_HandleRequest h request
                    = \<lparr>StatusCode = 200, Proxy_Headers = corsHeaders,
                       Body = HistoryBody
                         \<lparr>History_StatusCode = 200,
                          History_Message = ''Weather history retrieved successfully'',
                          Data = records,
                          Count = int (length records),
                          Period = requestPeriod request,
                          StartTime = formatRFC3339 h (Add (timeNow h) (- hours * Hour)),
                          EndTime = formatRFC3339 h (timeNow h)\<rparr>\<rparr>)"
proof -
  from periodHours_of_valid [OF assms(3)]
  obtain hours where n: "periodHours (requestPeriod request) = Some hours" "1 \<le> hours" "hours \<le> 168"
    by blast
  have six: "requestPeriod request = ''6h'' \<longrightarrow> hours = 6"
    using n(1) by (auto simp: periodHours_def)
  have day: "requestPeriod request = ''24h'' \<or> requestPeriod request = ''1d'' \<longrightarrow> hours = 24"
    using n(1) by (auto simp: periodHours_def)
  show ?thesis
    using n six day assms(3)
    by (intro exI [of _ hours]) (simp add: History_HandleRequest_GET [OF assms(1,2)] split: sum.splits)
qed

theorem History_HandleRequest_window_witness:
  "HTTPMethod (sampleRequest ''X-API-Key'' ''1d'') = ''GET''
   \<and> isValidPeriod (requestPeriod (sampleRequest ''X-API-Key'' ''1d''))
   \<and> (\<exists>r. Body (History_HandleRequest (sampleHistoryEnv []) (sampleRequest ''X-API-Key'' ''1d''))
              = HistoryBody r
            \<and> StartTime r = ''1699913600'' \<and> EndTime r = ''1700000000'')"
proof -
  let ?h = "sampleHistoryEnv []"
  let ?rq = "sampleRequest ''X-API-Key'' ''1d''"
  have m: "HTTPMethod ?rq = ''GET''" by (simp add: sampleRequest_def)
  have k: "lookup (Headers ?rq) ''X-API-Key'' \<noteq> [] \<or> lookup (Headers ?rq) ''x-api-key'' \<noteq> []"
    by (simp add: sampleRequest_def lookup_def)
  have p: "requestPeriod ?rq = ''1d''" by (simp add: sampleRequest_def requestPeriod_def lookup_def)
  have v: "isValidPeriod (requestPeriod ?rq)" unfolding p by code_simp
  have g: "GetWeatherHistory ?h (requestCity ?h ?rq) (Add (timeNow ?h) (- 24 * Hour)) (timeNow ?h) = Inr []"
    by (simp add: GetWeatherHistory_ok [where pages = "[]"] sampleHistoryEnv_def sortSlice_def)
  have s: "formatRFC3339 ?h (Add (timeNow ?h) (- 24 * Hour)) = ''1699913600''"
    unfolding sampleHistoryEnv_def by code_simp
  have e: "formatRFC3339 ?h (timeNow ?h) = ''1700000000''"
    unfolding sampleHistoryEnv_def by code_simp
  from History_HandleRequest_window [OF m k v, of ?h]
  show ?thesis using m v p g s e by auto
qed

text \<open>
  X7. When the scan behind an accepted request fails, the handler answers with status 500
  and the message \<open>Failed to retrieve weather history\<close>.
\<close>

theorem History_HandleRequest_store_error:
  assumes "HTTPMethod request = ''GET''"
      and "lookup (Headers request) ''X-API-Key'' \<noteq> [] \<or> lookup (Headers request) ''x-api-key'' \<noteq> []"
      and "isValidPeriod (requestPeriod request)"
      and "periodHours (requestPeriod request) = Some hours"
      and "ScanError (scan h (historyScanInput h (requestCity h request)
                                (Add (timeNow h) (- hours * Hour)) (timeNow h))) = Some err"
  shows "History_HandleRequest h request
           = \<lparr>StatusCode = 500, Proxy_Headers = corsHeaders,
              Body = ErrorBody ''Failed to retrieve weather history''\<rparr>"
proof -
  have "GetWeatherHistory h (requestCity h request) (Add (timeNow h) (- hours * Hour)) (timeNow h)
          = Inl (''failed to scan weather history: '' @ err)"
    using assms(5) by (rule GetWeatherHistory_error)
  then show ?thesis
    using assms(3,4) by (simp add: History_HandleRequest_GET [OF assms(1,2)])
qed

theorem History_HandleRequest_store_error_witness:
  "HTTPMethod (sampleRequest ''X-API-Key'' ''6h'') = ''GET''
   \<and> isValidPeriod (requestPeriod (sampleRequest ''X-API-Key'' ''6h''))
   \<and> periodHours (requestPeriod (sampleRequest ''X-API-Key'' ''6h'')) = Some 6
   \<and> StatusCode
        (History_HandleRequest
           ((sampleHistoryEnv [])\<lparr>scan := \<lambda>input. \<lparr>Pages = [], ScanError = Some ''RequestError''\<rparr>\<rparr>)
           (sampleRequest ''X-API-Key'' ''6h'')) = 500"
proof -
  let ?h = "(sampleHistoryEnv [])\<lparr>scan := \<lambda>input. \<lparr>Pages = [], ScanError = Some ''RequestError''\<rparr>\<rparr>"
  let ?rq = "sampleRequest ''X-API-Key'' ''6h''"
  have m: "HTTPMethod ?rq = ''GET''" by (simp add: sampleRequest_def)
  have k: "lookup (Headers ?rq) ''X-API-Key'' \<noteq> [] \<or> lookup (Headers ?rq) ''x-api-key'' \<noteq> []"
    by (simp add: sampleRequest_def lookup_def)
  have p: "requestPeriod ?rq = ''6h''" by (simp add: sampleRequest_def requestPeriod_def lookup_def)
  have v: "isValidPeriod (requestPeriod ?rq)" unfolding p by code_simp
  have n: "periodHours (requestPeriod ?rq) = Some 6" unfolding p by code_simp
  have e: "ScanError (scan ?h (historyScanInput ?h (requestCity ?h ?rq)
                                 (Add (timeNow ?h) (- 6 * Hour)) (timeNow ?h))) = Some ''RequestError''"
    by simp
  from History_HandleRequest_store_error [OF m k v n e]
  show ?thesis using m v n by simp
qed

section \<open>Properties of the collector\<close>

text \<open>
  C3 fails on the code for a provider response with an empty condition list: the record
  mapper would leave the description empty, but the handler's log statement indexes the
  list first and the invocation panics before any record is made or written.
\<close>

theorem Collector_HandleRequest_empty_conditions:
  assumes "GetWeatherData h = Inr weatherResponse"
      and "Weather weatherResponse = []"
  shows "Collector_HandleRequest h world = (Inl (IndexOutOfRange 0 0), world)
       \<and> Description (ConvertToWeatherRecord (timeFormatRFC3339 h) (convertNow h) weatherResponse) = []"
  using assms by (simp add: Collector_HandleRequest_def ConvertToWeatherRecord_def Let_def)

theorem Collector_HandleRequest_empty_conditions_witness:
  "GetWeatherData (sampleCollectorEnv (mockResponse\<lparr>Weather := []\<rparr>) None None)
     = Inr (mockResponse\<lparr>Weather := []\<rparr>)
   \<and> Weather (mockResponse\<lparr>Weather := []\<rparr>) = []
   \<and> Collector_HandleRequest (sampleCollectorEnv (mockResponse\<lparr>Weather := []\<rparr>) None None) emptyWorld
       = (Inl (IndexOutOfRange 0 0), emptyWorld)"
proof -
  let ?h = "sampleCollectorEnv (mockResponse\<lparr>Weather := []\<rparr>) None None"
  have g: "GetWeatherData ?h = Inr (mockResponse\<lparr>Weather := []\<rparr>)"
    by (simp add: GetWeatherData_def sampleCollectorEnv_def)
  have w: "Weather (mockResponse\<lparr>Weather := []\<rparr>) = []" by simp
  from Collector_HandleRequest_empty_conditions [OF g w, of emptyWorld]
  show ?thesis using g w by simp
qed

lemma StoreWeatherRecord_effect:
  "StoreWeatherRecord h world r = (res, world1) \<Longrightarrow>
     bucket world1 = bucket world
     \<and> (res = None \<longrightarrow> table world1 = (table world)((ID r, Timestamp r) \<mapsto> r)
                       \<and> calls world1 = calls world @ [PutItem r])
     \<and> (res \<noteq> None \<longrightarrow> table world1 = table world
                       \<and> (calls world1 = calls world \<or> calls world1 = calls world @ [PutItem r]))"
  by (auto simp: StoreWeatherRecord_def Let_def split: option.splits)

lemma StoreWeatherData_effect:
  "StoreWeatherData h world d = (res, world1) \<Longrightarrow>
     table world1 = table world
     \<and> (res = None \<longrightarrow> (\<exists>key. calls world1 = calls world @ [PutObject key d]
                                \<and> bucket world1 = (bucket world)(key \<mapsto> d)))
     \<and> (res \<noteq> None \<longrightarrow> bucket world1 = bucket world
                       \<and> (calls world1 = calls world
                            \<or> (\<exists>key. calls world1 = calls world @ [PutObject key d])))"
  by (auto simp: StoreWeatherData_def Let_def split: option.splits)

text \<open>
  C9. Once the reading is fetched and logged, the handler writes to the table first. When
  that write fails, no blob write is issued. When it succeeds and the blob write fails,
  the response has status 500 and the message of the failing step, and the table keeps
  the record. When both succeed, the response has status 200 with the city, temperature,
  description, timestamp and record id, and the blob request follows the table request.
\<close>

theorem Collector_HandleRequest_write_order:
  assumes "GetWeatherData h = Inr weatherResponse"
      and "Weather weatherResponse \<noteq> []"
      and "r = ConvertToWeatherRecord (timeFormatRFC3339 h) (convertNow h) weatherResponse"
      and "d = ConvertToS3Data weatherResponse r"
  shows "(StoreWeatherRecord h world r = (Some err, world1)
            \<longrightarrow> Collector_HandleRequest h world
                  = (Inr \<lparr>Response_StatusCode = 500,
                          Response_Message = ''Failed to store to DynamoDB: '' @ err,
                          Response_Data = None\<rparr>, world1)
                \<and> bucket world1 = bucket world
                \<and> (calls world1 = calls world \<or> calls world1 = calls world @ [PutItem r]))
       \<and> (StoreWeatherRecord h world r = (None, world1)
            \<and> StoreWeatherData h world1 d = (Some err, world2)
            \<longrightarrow> Collector_HandleRequest h world
                  = (Inr \<lparr>Response_StatusCode = 500,
                          Response_Message = ''Failed to store to S3: '' @ err,
                          Response_Data = None\<rparr>, world2)
                \<and> table world2 (ID r, Timestamp r) = Some r
                \<and> table world2 = table world1
                \<and> bucket world2 = bucket world
                \<and> (calls world2 = calls world @ [PutItem r]
                     \<or> (\<exists>key. calls world2 = calls world @ [PutItem r, PutObject key d])))
       \<and> (StoreWeatherRecord h world r = (None, world1)
            \<and> StoreWeatherData h world1 d = (None, world2)
            \<longrightarrow> Collector_HandleRequest h world
                  = (Inr \<lparr>Response_StatusCode = 200,
                          Response_Message = ''Weather data processed successfully'',
                          Response_Data =
                            Some \<lparr>data_city = CityName r,
                                  data_temperature = Temperature r,
                                  data_description = Description r,
                                  data_timestamp = Timestamp r,
                                  data_recordId = ID r\<rparr>\<rparr>, world2)
                \<and> table world2 (ID r, Timestamp r) = Some r
                \<and> (\<exists>key. calls world2 = calls world @ [PutItem r, PutObject key d]
                           \<and> bucket world2 key = Some d))"
proof -
  from assms(2) obtain w ws where w: "Weather weatherResponse = w # ws"
    by (cases "Weather weatherResponse") auto
  have run: "Collector_HandleRequest h world =
      (case StoreWeatherRecord h world r of
         (Some err, world) \<Rightarrow>
           (Inr \<lparr>Response_StatusCode = 500,
                 Response_Message = ''Failed to store to DynamoDB: '' @ err,
                 Response_Data = None\<rparr>, world)
       | (None, world) \<Rightarrow>
           (case StoreWeatherData h world d of
              (Some err, world) \<Rightarrow>
                (Inr \<lparr>Response_StatusCode = 500,
                      Response_Message = ''Failed to store to S3: '' @ err,
                      Response_Data = None\<rparr>, world)
            | (None, world) \<Rightarrow>
                (Inr \<lparr>Response_StatusCode = 200,
                      Response_Message = ''Weather data processed successfully'',
                      Response_Data =
                        Some \<lparr>data_city = CityName r,
                              data_temperature = Temperature r,
                              data_description = Description r,
                              data_timestamp = Timestamp r,
                              data_recordId = ID r\<rparr>\<rparr>, world)))"
    using assms(1,3,4) w
    by (simp add: Collector_HandleRequest_def Let_def split: prod.splits option.splits)
  show ?thesis
  proof (intro conjI impI)
    assume a: "StoreWeatherRecord h world r = (Some err, world1)"
    then show "Collector_HandleRequest h world
                  = (Inr \<lparr>Response_StatusCode = 500,
                          Response_Message = ''Failed to store to DynamoDB: '' @ err,
                          Response_Data = None\<rparr>, world1)"
      by (simp add: run)
    from StoreWeatherRecord_effect [OF a]
    show "bucket world1 = bucket world"
      and "calls world1 = calls world \<or> calls world1 = calls world @ [PutItem r]"
      by simp_all
  next
    assume a: "StoreWeatherRecord h world r = (None, world1)
            \<and> StoreWeatherData h world1 d = (Some err, world2)"
    then show "Collector_HandleRequest h world
                  = (Inr \<lparr>Response_StatusCode = 500,
                          Response_Message = ''Failed to store to S3: '' @ err,
                          Response_Data = None\<rparr>, world2)"
      by (simp add: run)
    from a have t: "StoreWeatherRecord h world r = (None, world1)"
      and b: "StoreWeatherData h world1 d = (Some err, world2)" by simp_all
    from StoreWeatherRecord_effect [OF t] StoreWeatherData_effect [OF b]
    show "table world2 (ID r, Timestamp r) = Some r"
      and "table world2 = table world1"
      and "bucket world2 = bucket world"
      and "calls world2 = calls world @ [PutItem r]
                     \<or> (\<exists>key. calls world2 = calls world @ [PutItem r, PutObject key d])"
      by auto
  next
    assume a: "StoreWeatherRecord h world r = (None, world1)
            \<and> StoreWeatherData h world1 d = (None, world2)"
    then show "Collector_HandleRequest h world
                  = (Inr \<lparr>Response_StatusCode = 200,
                          Response_Message = ''Weather data processed successfully'',
                          Response_Data =
                            Some \<lparr>data_city = CityName r,
                                  data_temperature = Temperature r,
                                  data_description = Description r,
                                  data_timestamp = Timestamp r,
                                  data_recordId = ID r\<rparr>\<rparr>, world2)"
      by (simp add: run)
    from a have t: "StoreWeatherRecord h world r = (None, world1)"
      and b: "StoreWeatherData h world1 d = (None, world2)" by simp_all
    from StoreWeatherRecord_effect [OF t] StoreWeatherData_effect [OF b]
    show "table world2 (ID r, Timestamp r) = Some r"
      and "\<exists>key. calls world2 = calls world @ [PutItem r, PutObject key d]
                           \<and> bucket world2 key = Some d"
      by auto
  qed
qed

theorem Collector_HandleRequest_write_order_witness:
  "GetWeatherData (sampleCollectorEnv mockResponse None (Some ''AccessDenied'')) = Inr mockResponse
   \<and> Weather mockResponse \<noteq> []
   \<and> fst (Collector_HandleRequest (sampleCollectorEnv mockResponse None (Some ''AccessDenied'')) emptyWorld)
       = Inr \<lparr>Response_StatusCode = 500,
              Response_Message = ''Failed to store to S3: failed to upload to S3: AccessDenied'',
              Response_Data = None\<rparr>
   \<and> table (snd (Collector_HandleRequest
                    (sampleCollectorEnv mockResponse None (Some ''AccessDenied'')) emptyWorld))
         (''Tokyo-1700000000'', ''1700000000'')
       = Some (ConvertToWeatherRecord (\<lambda>t. formatInt (Unix t)) (1700000000 * Second) mockResponse)
   \<and> (\<exists>r. fst (Collector_HandleRequest (sampleCollectorEnv mockResponse None None) emptyWorld)
             = Inr r \<and> Response_StatusCode r = 200)"
proof -
  let ?f = "sampleCollectorEnv mockResponse None (Some ''AccessDenied'')"
  let ?s = "sampleCollectorEnv mockResponse None None"
  let ?r = "ConvertToWeatherRecord (\<lambda>t. formatInt (Unix t)) (1700000000 * Second) mockResponse"
  let ?d = "ConvertToS3Data mockResponse ?r"
  have u: "Unix (1700000000 * Second) = 1700000000" by (simp add: Unix_def Second_def)
  have f: "formatInt 1700000000 = ''1700000000''" by code_simp
  have key: "ID ?r = ''Tokyo-1700000000'' \<and> Timestamp ?r = ''1700000000''"
    using u f by (simp add: ConvertToWeatherRecord_def Let_def mockResponse_def)
  have g: "GetWeatherData ?f = Inr mockResponse" "GetWeatherData ?s = Inr mockResponse"
    by (simp_all add: GetWeatherData_def sampleCollectorEnv_def)
  have w: "Weather mockResponse \<noteq> []" by (simp add: mockResponse_def)
  have r: "?r = ConvertToWeatherRecord (timeFormatRFC3339 ?f) (convertNow ?f) mockResponse"
          "?r = ConvertToWeatherRecord (timeFormatRFC3339 ?s) (convertNow ?s) mockResponse"
    by (simp_all add: sampleCollectorEnv_def)
  obtain w1 where t: "StoreWeatherRecord ?f emptyWorld ?r = (None, w1)"
    by (simp add: StoreWeatherRecord_def sampleCollectorEnv_def Let_def)
  obtain w2 where b: "StoreWeatherData ?f w1 ?d = (Some ''failed to upload to S3: AccessDenied'', w2)"
    by (simp add: StoreWeatherData_def sampleCollectorEnv_def Let_def)
  obtain v1 where t': "StoreWeatherRecord ?s emptyWorld ?r = (None, v1)"
    by (simp add: StoreWeatherRecord_def sampleCollectorEnv_def Let_def)
  obtain v2 where b': "StoreWeatherData ?s v1 ?d = (None, v2)"
    by (simp add: StoreWeatherData_def sampleCollectorEnv_def Let_def)
  from Collector_HandleRequest_write_order
         [OF g(1) w r(1) refl, where world = emptyWorld and ?world1.0 = w1 and ?world2.0 = w2
            and err = "''failed to upload to S3: AccessDenied''"]
  have failed: "Collector_HandleRequest ?f emptyWorld
                  = (Inr \<lparr>Response_StatusCode = 500,
                          Response_Message = ''Failed to store to S3: '' @ ''failed to upload to S3: AccessDenied'',
                          Response_Data = None\<rparr>, w2)
                \<and> table w2 (ID ?r, Timestamp ?r) = Some ?r"
    using t b by blast
  from Collector_HandleRequest_write_order
         [OF g(2) w r(2) refl, where world = emptyWorld and ?world1.0 = v1 and ?world2.0 = v2]
  have "\<exists>r. Collector_HandleRequest ?s emptyWorld = (Inr r, v2) \<and> Response_StatusCode r = 200"
    using t' b' by simp
  then have succeeded:
    "\<exists>r. fst (Collector_HandleRequest ?s emptyWorld) = Inr r \<and> Response_StatusCode r = 200"
    by auto
  show ?thesis using g(1) w failed succeeded key by simp
qed

text \<open>
  X8. When the provider answers with a status other than 200, \<open>GetWeatherData\<close> fails
  with an error that names the status and carries the body.
\<close>

theorem GetWeatherData_bad_status:
  assumes "urlParseError env = None"
      and "httpGet env = Inr resp"
      and "HTTP_StatusCode resp \<noteq> 200"
  shows "GetWeatherData env
           = Inl (''weather API returned status '' @ formatInt (HTTP_StatusCode resp)
                  @ '': '' @ HTTP_Body resp)"
  using assms by (simp add: GetWeatherData_def)

theorem GetWeatherData_bad_status_witness:
  "GetWeatherData
     ((sampleCollectorEnv mockResponse None None)
        \<lparr>httpGet := Inr \<lparr>HTTP_StatusCode = 401, HTTP_Body = ''Invalid API key'',
                          HTTP_ReadError = None\<rparr>\<rparr>)
     = Inl ''weather API returned status 401: Invalid API key''"
proof -
  let ?resp = "\<lparr>HTTP_StatusCode = 401, HTTP_Body = ''Invalid API key'', HTTP_ReadError = None\<rparr>"
  let ?env = "(sampleCollectorEnv mockResponse None None)\<lparr>httpGet := Inr ?resp\<rparr>"
  have u: "urlParseError ?env = None" by (simp add: sampleCollectorEnv_def)
  have g: "httpGet ?env = Inr ?resp" by simp
  have c: "HTTP_StatusCode ?resp \<noteq> 200" by simp
  have f: "formatInt 401 = ''401''" by code_simp
  from GetWeatherData_bad_status [OF u g c] show ?thesis using f by simp
qed

text \<open>
  X9. When the fetch fails, the collector answers with status 500 and the fetch error, and
  issues no write to either store.
\<close>

theorem Collector_HandleRequest_fetch_failure:
  assumes "GetWeatherData h = Inl err"
  shows "Collector_HandleRequest h world
           = (Inr \<lparr>Response_StatusCode = 500,
                   Response_Message = ''Failed to fetch weather data: '' @ err,
                   Response_Data = None\<rparr>, world)"
  using assms by (simp add: Collector_HandleRequest_def)

theorem Collector_HandleRequest_fetch_failure_witness:
  "GetWeatherData ((sampleCollectorEnv mockResponse None None)\<lparr>httpGet := Inl ''dial tcp: timeout''\<rparr>)
     = Inl ''failed to make weather API request: dial tcp: timeout''
   \<and> Collector_HandleRequest
         ((sampleCollectorEnv mockResponse None None)\<lparr>httpGet := Inl ''dial tcp: timeout''\<rparr>) emptyWorld
       = (Inr \<lparr>Response_StatusCode = 500,
               Response_Message =
                 ''Failed to fetch weather data: failed to make weather API request: dial tcp: timeout'',
               Response_Data = None\<rparr>, emptyWorld)"
proof -
  let ?env = "(sampleCollectorEnv mockResponse None None)\<lparr>httpGet := Inl ''dial tcp: timeout''\<rparr>"
  have g: "GetWeatherData ?env = Inl ''failed to make weather API request: dial tcp: timeout''"
    by (simp add: GetWeatherData_def sampleCollectorEnv_def)
  from Collector_HandleRequest_fetch_failure [OF g, of emptyWorld]
  show ?thesis using g by simp
qed

end
